theory Spec2Isabelle
  imports Main
begin

section \<open>JavaScript strings\<close>

text \<open>
  Strings are byte sequences (the UTF-8 encoding of the JavaScript string); the URLs the
  proxy handles are ASCII. The functions below are the \<^verbatim>\<open>String.prototype\<close> methods
  the handlers call.
\<close>

definition dquote :: string where
  "dquote = [CHR 0x22]"

definition startsWith :: "string \<Rightarrow> string \<Rightarrow> bool" where
  "startsWith s p = (take (length p) s = p)"

primrec includes_str :: "string \<Rightarrow> string \<Rightarrow> bool" where
  "includes_str [] sub = (sub = [])"
| "includes_str (c # cs) sub = (startsWith (c # cs) sub \<or> includes_str cs sub)"

definition code :: "char \<Rightarrow> nat" where
  "code c = of_char c"

definition lower_chr :: "char \<Rightarrow> char" where
  "lower_chr c = (if 65 \<le> code c \<and> code c \<le> 90 then char_of (code c + 32) else c)"

definition toLowerCase :: "string \<Rightarrow> string" where
  "toLowerCase s = map lower_chr s"

text \<open>\<^verbatim>\<open>s.split(c)\<close> for a one-character separator; the result is never empty.\<close>

fun split_chr :: "char \<Rightarrow> string \<Rightarrow> string list" where
  "split_chr c [] = [[]]"
| "split_chr c (x # xs) =
     (if x = c then [] # split_chr c xs
      else (case split_chr c xs of [] \<Rightarrow> [[x]] | r # rs \<Rightarrow> (x # r) # rs))"

fun join_str :: "string \<Rightarrow> string list \<Rightarrow> string" where
  "join_str sep [] = []"
| "join_str sep [x] = x"
| "join_str sep (x # y # ys) = x @ sep @ join_str sep (y # ys)"

text \<open>\<^verbatim>\<open>s.split(sep)[0]\<close>: the text before the first occurrence of a non-empty separator.\<close>

fun before_first :: "string \<Rightarrow> string \<Rightarrow> string" where
  "before_first sep [] = []"
| "before_first sep (c # cs) =
     (if startsWith (c # cs) sep then [] else c # before_first sep cs)"

text \<open>
  \<^verbatim>\<open>s.split(sep)[1]\<close>: the text between the first and the second occurrence of a
  non-empty separator, \<^verbatim>\<open>undefined\<close> (\<open>None\<close>) when the separator does not occur.
\<close>

fun after_first :: "string \<Rightarrow> string \<Rightarrow> string option" where
  "after_first sep [] = None"
| "after_first sep (c # cs) =
     (if startsWith (c # cs) sep then Some (drop (length sep) (c # cs)) else after_first sep cs)"

definition split_1 :: "string \<Rightarrow> string \<Rightarrow> string option" where
  "split_1 sep s = map_option (before_first sep) (after_first sep s)"

text \<open>\<^verbatim>\<open>s.replace(pat, rep)\<close> with a string pattern: the first occurrence only.\<close>

fun replace_first :: "string \<Rightarrow> string \<Rightarrow> string \<Rightarrow> string" where
  "replace_first pat rep [] = (if pat = [] then rep else [])"
| "replace_first pat rep (c # cs) =
     (if startsWith (c # cs) pat then rep @ drop (length pat) (c # cs)
      else c # replace_first pat rep cs)"

text \<open>\<^verbatim>\<open>s.replace(/^\//, '')\<close> and \<^verbatim>\<open>s.slice(0, -1)\<close>.\<close>

definition strip_slash :: "string \<Rightarrow> string" where
  "strip_slash s = (case s of [] \<Rightarrow> [] | c # cs \<Rightarrow> if c = CHR ''/'' then cs else s)"

definition slice_0_m1 :: "string \<Rightarrow> string" where
  "slice_0_m1 s = butlast s"

text \<open>JavaScript truthiness of a possibly undefined string, and \<^verbatim>\<open>a || b\<close>.\<close>

definition truthy :: "string option \<Rightarrow> bool" where
  "truthy x = (case x of None \<Rightarrow> False | Some s \<Rightarrow> s \<noteq> [])"

definition js_or :: "string option \<Rightarrow> string option \<Rightarrow> string option" where
  "js_or a b = (if truthy a then a else b)"

section \<open>Percent-encoding\<close>

definition hexdigit :: "nat \<Rightarrow> char" where
  "hexdigit n = (if n < 10 then char_of (48 + n) else char_of (55 + n))"

definition hexval :: "char \<Rightarrow> nat option" where
  "hexval c =
     (let n = code c in
      if 48 \<le> n \<and> n \<le> 57 then Some (n - 48)
      else if 65 \<le> n \<and> n \<le> 70 then Some (n - 55)
      else if 97 \<le> n \<and> n \<le> 102 then Some (n - 87)
      else None)"

definition pct :: "char \<Rightarrow> string" where
  "pct c = [CHR ''%'', hexdigit (code c div 16), hexdigit (code c mod 16)]"

definition is_alnum :: "char \<Rightarrow> bool" where
  "is_alnum c =
     ((65 \<le> code c \<and> code c \<le> 90) \<or> (97 \<le> code c \<and> code c \<le> 122)
      \<or> (48 \<le> code c \<and> code c \<le> 57))"

text \<open>\<^verbatim>\<open>encodeURIComponent\<close> keeps \<^verbatim>\<open>A-Z a-z 0-9 - _ . ! ~ * ' ( )\<close>.\<close>

definition uri_unreserved :: "char \<Rightarrow> bool" where
  "uri_unreserved c = (is_alnum c \<or> c \<in> set (''-_.!~*()'' @ [CHR 0x27]))"

definition encodeURIComponent :: "string \<Rightarrow> string" where
  "encodeURIComponent s = concat (map (\<lambda>c. if uri_unreserved c then [c] else pct c) s)"

text \<open>\<^verbatim>\<open>decodeURIComponent\<close> throws a URIError on a malformed escape (\<open>None\<close>).\<close>

fun decodeURIComponent :: "string \<Rightarrow> string option" where
  "decodeURIComponent [] = Some []"
| "decodeURIComponent (c # cs) =
     (if c = CHR ''%'' then
        (case cs of
           h1 # h2 # r \<Rightarrow>
             (case (hexval h1, hexval h2) of
                (Some a, Some b) \<Rightarrow> map_option ((#) (char_of (a * 16 + b))) (decodeURIComponent r)
              | _ \<Rightarrow> None)
         | _ \<Rightarrow> None)
      else map_option ((#) c) (decodeURIComponent cs))"

text \<open>
  The platform fills \<^verbatim>\<open>req.query\<close> with Node's \<^verbatim>\<open>querystring.parse\<close> of the text after
  the first \<^verbatim>\<open>?\<close> of the request URL: pairs are separated by \<^verbatim>\<open>&\<close>, a pair is cut at its
  first \<^verbatim>\<open>=\<close>, \<^verbatim>\<open>+\<close> is a space, and a malformed escape is kept as it is.
\<close>

fun qs_unescape :: "string \<Rightarrow> string" where
  "qs_unescape [] = []"
| "qs_unescape (c # cs) =
     (if c = CHR ''+'' then CHR '' '' # qs_unescape cs
      else if c = CHR ''%'' then
        (case cs of
           h1 # h2 # r \<Rightarrow>
             (case (hexval h1, hexval h2) of
                (Some a, Some b) \<Rightarrow> char_of (a * 16 + b) # qs_unescape r
              | _ \<Rightarrow> c # qs_unescape cs)
         | _ \<Rightarrow> c # qs_unescape cs)
      else c # qs_unescape cs)"

definition qs_pair :: "string \<Rightarrow> string \<times> string" where
  "qs_pair kv =
     (qs_unescape (takeWhile (\<lambda>c. c \<noteq> CHR ''='') kv),
      qs_unescape (drop 1 (dropWhile (\<lambda>c. c \<noteq> CHR ''='') kv)))"

definition qs_parse :: "string \<Rightarrow> (string \<times> string) list" where
  "qs_parse s = map qs_pair (filter (\<lambda>kv. kv \<noteq> []) (split_chr CHR ''&'' s))"

definition url_query_string :: "string \<Rightarrow> string" where
  "url_query_string u = drop 1 (dropWhile (\<lambda>c. c \<noteq> CHR ''?'') u)"

text \<open>
  \<^verbatim>\<open>new URLSearchParams(pairs).toString()\<close>: the form-urlencoded serialiser keeps
  alphanumerics and \<^verbatim>\<open>* - . _\<close>, writes a space as \<^verbatim>\<open>+\<close> and escapes every other byte.
\<close>

definition form_byte :: "char \<Rightarrow> string" where
  "form_byte c =
     (if is_alnum c \<or> c \<in> set ''*-._'' then [c]
      else if c = CHR '' '' then ''+'' else pct c)"

definition URLSearchParams_toString :: "(string \<times> string) list \<Rightarrow> string" where
  "URLSearchParams_toString ps =
     join_str ''&'' (map (\<lambda>(k, v). concat (map form_byte k) @ ''='' @ concat (map form_byte v)) ps)"

section \<open>Base64\<close>

text \<open>
  \<^verbatim>\<open>Buffer.from(s).toString('base64')\<close> is the standard padded encoding.
  \<^verbatim>\<open>Buffer.from(t, 'base64')\<close> never throws: it stops at the first \<^verbatim>\<open>=\<close>, skips every
  character outside the alphabet, and accepts the URL-safe letters \<^verbatim>\<open>-\<close> and \<^verbatim>\<open>_\<close>.
  The decoded bytes are the string: \<^verbatim>\<open>toString('utf-8')\<close> changes only bytes that are not
  valid UTF-8.
\<close>

definition b64chr :: "nat \<Rightarrow> char" where
  "b64chr n =
     (if n < 26 then char_of (65 + n)
      else if n < 52 then char_of (71 + n)
      else if n < 62 then char_of (n - 4)
      else if n = 62 then CHR ''+'' else CHR ''/'')"

definition b64val :: "char \<Rightarrow> nat option" where
  "b64val c =
     (let n = code c in
      if 65 \<le> n \<and> n \<le> 90 then Some (n - 65)
      else if 97 \<le> n \<and> n \<le> 122 then Some (n - 71)
      else if 48 \<le> n \<and> n \<le> 57 then Some (n + 4)
      else if c = CHR ''+'' \<or> c = CHR ''-'' then Some 62
      else if c = CHR ''/'' \<or> c = CHR ''_'' then Some 63
      else None)"

fun b64_groups :: "nat list \<Rightarrow> string" where
  "b64_groups (a # b # c # r) =
     [b64chr (a div 4), b64chr ((a mod 4) * 16 + b div 16),
      b64chr ((b mod 16) * 4 + c div 64), b64chr (c mod 64)] @ b64_groups r"
| "b64_groups [a, b] =
     [b64chr (a div 4), b64chr ((a mod 4) * 16 + b div 16), b64chr ((b mod 16) * 4), CHR ''='']"
| "b64_groups [a] = [b64chr (a div 4), b64chr ((a mod 4) * 16), CHR ''='', CHR ''='']"
| "b64_groups [] = []"

definition toString_base64 :: "string \<Rightarrow> string" where
  "toString_base64 s = b64_groups (map code s)"

fun b64_bytes :: "nat list \<Rightarrow> nat list" where
  "b64_bytes (w # x # y # z # r) =
     [w * 4 + x div 16, (x mod 16) * 16 + y div 4, (y mod 4) * 64 + z] @ b64_bytes r"
| "b64_bytes [w, x, y] = [w * 4 + x div 16, (x mod 16) * 16 + y div 4]"
| "b64_bytes [w, x] = [w * 4 + x div 16]"
| "b64_bytes _ = []"

definition from_base64 :: "string \<Rightarrow> string" where
  "from_base64 t =
     map char_of (b64_bytes (List.map_filter b64val (takeWhile (\<lambda>c. c \<noteq> CHR ''='') t)))"

section \<open>URL objects\<close>

text \<open>
  The fields of a WHATWG \<^verbatim>\<open>URL\<close> object that the handlers read. \<open>protocol\<close> ends with
  the colon, \<open>search\<close> and \<open>hash\<close> are empty or start with \<^verbatim>\<open>?\<close> and \<^verbatim>\<open>#\<close>.
\<close>

record url =
  protocol :: string
  hostname :: string
  port :: string
  pathname :: string
  search :: string
  hash :: string
  has_host :: bool

definition host :: "url \<Rightarrow> string" where
  "host u = hostname u @ (if port u = [] then [] else '':'' @ port u)"

definition special_schemes :: "string list" where
  "special_schemes = [''http:'', ''https:'', ''ftp:'', ''ws:'', ''wss:'']"

definition origin :: "url \<Rightarrow> string" where
  "origin u = (if protocol u \<in> set special_schemes then protocol u @ ''//'' @ host u else ''null'')"

definition href :: "url \<Rightarrow> string" where
  "href u =
     protocol u @ (if has_host u then ''//'' @ host u else []) @ pathname u @ search u @ hash u"

subsection \<open>The URL parser of the Node runtime\<close>

text \<open>
  \<open>whatwg_URL input base\<close> follows the WHATWG basic URL parser as \<^verbatim>\<open>new URL(input, base)\<close>
  runs it; \<open>None\<close> is the \<^verbatim>\<open>TypeError: Invalid URL\<close>. Credentials, IPv6 literals, numeric
  forms of IPv4 addresses other than dotted decimal, and non-ASCII host names are not covered
  (the first is refused, the others are kept as written).
\<close>

definition is_alpha :: "char \<Rightarrow> bool" where
  "is_alpha c = ((65 \<le> code c \<and> code c \<le> 90) \<or> (97 \<le> code c \<and> code c \<le> 122))"

definition is_digit :: "char \<Rightarrow> bool" where
  "is_digit c = (48 \<le> code c \<and> code c \<le> 57)"

definition is_scheme_chr :: "char \<Rightarrow> bool" where
  "is_scheme_chr c = (is_alnum c \<or> c \<in> set ''+-.'')"

definition trim_url :: "string \<Rightarrow> string" where
  "trim_url s =
     filter (\<lambda>c. code c \<notin> {9, 10, 13})
       (rev (dropWhile (\<lambda>c. code c \<le> 32) (rev (dropWhile (\<lambda>c. code c \<le> 32) s))))"

definition take_scheme :: "string \<Rightarrow> (string \<times> string) option" where
  "take_scheme s =
     (let sch = takeWhile is_scheme_chr s; rest = dropWhile is_scheme_chr s in
      case (sch, rest) of
        (a # _, c # r) \<Rightarrow> if is_alpha a \<and> c = CHR '':'' then Some (toLowerCase sch @ '':'', r) else None
      | _ \<Rightarrow> None)"

definition default_port :: "string \<Rightarrow> string" where
  "default_port sch =
     (if sch = ''http:'' \<or> sch = ''ws:'' then ''80''
      else if sch = ''https:'' \<or> sch = ''wss:'' then ''443''
      else if sch = ''ftp:'' then ''21'' else [])"

definition digits_nat :: "string \<Rightarrow> nat" where
  "digits_nat s = foldl (\<lambda>n c. 10 * n + (code c - 48)) 0 s"

fun nat_digits :: "nat \<Rightarrow> nat \<Rightarrow> string" where
  "nat_digits 0 n = []"
| "nat_digits (Suc f) n =
     (if n < 10 then [char_of (48 + n)] else nat_digits f (n div 10) @ [char_of (48 + n mod 10)])"

definition is_slash :: "bool \<Rightarrow> char \<Rightarrow> bool" where
  "is_slash special c = (c = CHR ''/'' \<or> (special \<and> c = CHR 0x5C))"

definition forbidden_host_chr :: "char \<Rightarrow> bool" where
  "forbidden_host_chr c =
     (code c \<le> 32 \<or> code c = 127 \<or> c \<in> set (''#/:<>?@[]^|%'' @ [CHR 0x5C]))"

fun dotsegs :: "string list \<Rightarrow> string list \<Rightarrow> string list" where
  "dotsegs acc [] = rev acc"
| "dotsegs acc [s] =
     rev (if s = ''..'' then [] # tl acc else if s = ''.'' then [] # acc else s # acc)"
| "dotsegs acc (s # t # ss) =
     dotsegs (if s = ''..'' then tl acc else if s = ''.'' then acc else s # acc) (t # ss)"

definition enc_set :: "string \<Rightarrow> string \<Rightarrow> string" where
  "enc_set bad s =
     concat (map (\<lambda>c. if code c \<le> 32 \<or> code c > 126 \<or> c \<in> set bad then pct c else [c]) s)"

definition path_bad :: string where
  "path_bad = [CHR 0x22] @ ''#<>?`{}''"

definition query_bad :: "bool \<Rightarrow> string" where
  "query_bad special = [CHR 0x22] @ ''#<>'' @ (if special then [CHR 0x27] else [])"

definition frag_bad :: string where
  "frag_bad = [CHR 0x22] @ ''<>`''"

text \<open>The path, query and fragment of the text that follows the authority.\<close>

definition cut_path :: "string \<Rightarrow> string" where
  "cut_path r = takeWhile (\<lambda>c. c \<noteq> CHR ''?'' \<and> c \<noteq> CHR ''#'') r"

definition cut_search :: "bool \<Rightarrow> string \<Rightarrow> string" where
  "cut_search special r =
     (let q = takeWhile (\<lambda>c. c \<noteq> CHR ''#'') (dropWhile (\<lambda>c. c \<noteq> CHR ''?'' \<and> c \<noteq> CHR ''#'') r)
      in if length q \<le> 1 then [] else ''?'' @ enc_set (query_bad special) (drop 1 q))"

definition cut_hash :: "string \<Rightarrow> string" where
  "cut_hash r =
     (let f = dropWhile (\<lambda>c. c \<noteq> CHR ''#'') r
      in if length f \<le> 1 then [] else ''#'' @ enc_set frag_bad (drop 1 f))"

definition norm_path :: "bool \<Rightarrow> string \<Rightarrow> string" where
  "norm_path special p =
     (let p1 = map (\<lambda>c. if is_slash special c then CHR ''/'' else c) p;
          segs = split_chr CHR ''/'' (strip_slash p1)
      in ''/'' @ join_str ''/'' (map (enc_set path_bad) (dotsegs [] segs)))"

definition parse_port :: "string \<Rightarrow> string \<Rightarrow> string option" where
  "parse_port sch p =
     (if p = [] then Some []
      else if \<not> list_all is_digit p \<or> digits_nat p > 65535 then None
      else (let q = nat_digits 6 (digits_nat p) in Some (if q = default_port sch then [] else q)))"

definition parse_authority :: "string \<Rightarrow> bool \<Rightarrow> string \<Rightarrow> string \<Rightarrow> url option" where
  "parse_authority sch special auth rest =
     (let hn = takeWhile (\<lambda>c. c \<noteq> CHR '':'') auth;
          pt = drop 1 (dropWhile (\<lambda>c. c \<noteq> CHR '':'') auth)
      in if (special \<and> hn = []) \<or> list_ex forbidden_host_chr hn then None
         else (case parse_port sch pt of
                 None \<Rightarrow> None
               | Some p \<Rightarrow>
                   Some \<lparr>protocol = sch, hostname = (if special then toLowerCase hn else hn), port = p,
                         pathname = (if special \<or> cut_path rest \<noteq> [] then norm_path special (cut_path rest) else []),
                         search = cut_search special rest, hash = cut_hash rest, has_host = True\<rparr>))"

definition parse_after_slashes :: "string \<Rightarrow> bool \<Rightarrow> string \<Rightarrow> url option" where
  "parse_after_slashes sch special r =
     parse_authority sch special
       (takeWhile (\<lambda>c. \<not> is_slash special c \<and> c \<noteq> CHR ''?'' \<and> c \<noteq> CHR ''#'') r)
       (dropWhile (\<lambda>c. \<not> is_slash special c \<and> c \<noteq> CHR ''?'' \<and> c \<noteq> CHR ''#'') r)"

definition parse_absolute :: "string \<Rightarrow> string \<Rightarrow> url option" where
  "parse_absolute sch r =
     (if sch \<in> set special_schemes then
        parse_after_slashes sch True (dropWhile (is_slash True) r)
      else if startsWith r ''//'' then parse_after_slashes sch False (drop 2 r)
      else Some \<lparr>protocol = sch, hostname = [], port = [], pathname = cut_path r,
                 search = cut_search False r, hash = cut_hash r, has_host = False\<rparr>)"

definition parse_relative :: "url \<Rightarrow> string \<Rightarrow> url option" where
  "parse_relative b r =
     (let special = (protocol b \<in> set special_schemes) in
      if \<not> has_host b then
        (if startsWith r ''#'' then Some (b\<lparr>hash := cut_hash r\<rparr>) else None)
      else if r = [] then Some (b\<lparr>hash := []\<rparr>)
      else if length r \<ge> 2 \<and> is_slash special (r ! 0) \<and> is_slash special (r ! 1) then
        parse_after_slashes (protocol b) special (drop 2 r)
      else if is_slash special (r ! 0) then
        Some (b\<lparr>pathname := norm_path special (cut_path r), search := cut_search special r,
                hash := cut_hash r\<rparr>)
      else if startsWith r ''?'' then Some (b\<lparr>search := cut_search special r, hash := cut_hash r\<rparr>)
      else if startsWith r ''#'' then Some (b\<lparr>hash := cut_hash r\<rparr>)
      else
        (let dir = rev (dropWhile (\<lambda>c. c \<noteq> CHR ''/'') (rev (pathname b)))
         in Some (b\<lparr>pathname := norm_path special (dir @ cut_path r),
                    search := cut_search special r, hash := cut_hash r\<rparr>)))"

definition whatwg_URL :: "string \<Rightarrow> string option \<Rightarrow> url option" where
  "whatwg_URL input base =
     (let s = trim_url input in
      case base of
        None \<Rightarrow> (case take_scheme s of None \<Rightarrow> None | Some (sch, r) \<Rightarrow> parse_absolute sch r)
      | Some bs \<Rightarrow>
          (case take_scheme (trim_url bs) of
             None \<Rightarrow> None
           | Some (bsch, br) \<Rightarrow>
               (case parse_absolute bsch br of
                  None \<Rightarrow> None
                | Some b \<Rightarrow>
                    (case take_scheme s of
                       None \<Rightarrow> parse_relative b s
                     | Some (sch, r) \<Rightarrow>
                         if sch = bsch \<and> sch \<in> set special_schemes
                            \<and> \<not> (length r \<ge> 2 \<and> is_slash True (r ! 0) \<and> is_slash True (r ! 1))
                         then parse_relative b r
                         else parse_absolute sch r))))"

section \<open>The platform: URL parser, regular expressions, HTTP client, environment\<close>

text \<open>
  The regular expressions of the source, one constructor per literal (the attribute name is a
  parameter where the same literal is written for \<^verbatim>\<open>href\<close>, \<^verbatim>\<open>src\<close> and \<^verbatim>\<open>action\<close>).
\<close>

datatype attr = Href | Src | Action

datatype regex =
    AttrAnyWs attr     \<comment> \<open>\<^verbatim>\<open>/href\s*=\s*["']([^"']+)["']/gi\<close> (proxy.js)\<close>
  | AttrAny attr       \<comment> \<open>\<^verbatim>\<open>/href=["']([^"']+)["']/gi\<close> (proxy-path)\<close>
  | AttrAbs attr       \<comment> \<open>\<^verbatim>\<open>/href=["']https?:\/\/([^"'\/]+)(\/[^"']*)?["']/gi\<close> (browse)\<close>
  | AttrAbsPP attr     \<comment> \<open>\<^verbatim>\<open>/href=["']https?:\/\/([^"']+)["']/gi\<close> (pp.js)\<close>
  | AttrAbsEnc attr    \<comment> \<open>\<^verbatim>\<open>/href=["']https?:\/\/[^"']+["']/gi\<close> (encode/[encoded].js)\<close>
  | AttrRoot attr      \<comment> \<open>\<^verbatim>\<open>/href=["']\/(?!api\/browse)([^"']*)["']/gi\<close>\<close>
  | HrefRel            \<comment> \<open>\<^verbatim>\<open>/href=["'](?!https?:\/\/|\/|#|javascript:|mailto:)([^"']*)["']/gi\<close>\<close>
  | SrcRel             \<comment> \<open>\<^verbatim>\<open>/src=["'](?!https?:\/\/|\/|data:|javascript:)([^"']*)["']/gi\<close>\<close>
  | FormTag            \<comment> \<open>\<^verbatim>\<open>/(<form[^>]*?)(?:\s+action\s*=\s*["']([^"']*)["'])?([^>]*>)/gi\<close>\<close>
  | BaseTag            \<comment> \<open>\<^verbatim>\<open>/<base[^>]*>/gi\<close>\<close>
  | CssUrlWs           \<comment> \<open>\<^verbatim>\<open>/url\s*\(\s*["']?([^"')]+)["']?\s*\)/gi\<close>\<close>
  | CssUrl             \<comment> \<open>\<^verbatim>\<open>/url\(["']?([^"')]+)["']?\)/gi\<close>\<close>
  | CssImport          \<comment> \<open>\<^verbatim>\<open>/@import\s+["']([^"']+)["']/gi\<close>\<close>
  | MetaRefresh        \<comment> \<open>\<^verbatim>\<open>/content\s*=\s*["'][^"']*url\s*=\s*([^"';]+)[^"']*["']/gi\<close>\<close>
  | ActionAttr         \<comment> \<open>\<^verbatim>\<open>/action=["'][^"']*["']/\<close> (first match only)\<close>
  | BodyOpen           \<comment> \<open>\<^verbatim>\<open>/(<body[^>]*>)/\<close> (first match only)\<close>

text \<open>
  What the regular-expression engine hands to \<^verbatim>\<open>String.prototype.replace\<close>: the text cut
  into the stretches no match covers and the matches, each with its capture groups
  (\<open>None\<close> is \<^verbatim>\<open>undefined\<close>, a group that did not take part).
\<close>

datatype piece = Text string | Match string "string option list"

record config =
  cfg_method :: string
  cfg_url :: string
  cfg_headers :: "string \<rightharpoonup> string"
  cfg_data :: "string option"
  maxRedirects :: nat
  accept_below_500_only :: bool

text \<open>
  What \<^verbatim>\<open>axios\<close> rejects with: an error carrying \<^verbatim>\<open>error.response\<close> (its status and
  \<^verbatim>\<open>statusText\<close>), or one carrying only \<^verbatim>\<open>error.code\<close> and \<^verbatim>\<open>error.message\<close>.
\<close>

datatype axios_error = BadStatus nat string | ErrCode string string

datatype axios_result = Resolved nat string "string \<rightharpoonup> string" string | Rejected axios_error

text \<open>
  The libraries and the environment the handlers run on: \<^verbatim>\<open>new URL(input, base)\<close>, the
  regular-expression engine, \<^verbatim>\<open>axios(config)\<close> and \<^verbatim>\<open>process.env.VERCEL_URL\<close>.
\<close>

record platform =
  new_URL :: "string \<Rightarrow> string option \<Rightarrow> url option"
  regex_pieces :: "regex \<Rightarrow> string \<Rightarrow> piece list"
  axios :: "config \<Rightarrow> axios_result"
  VERCEL_URL :: "string option"

definition grp :: "string option list \<Rightarrow> nat \<Rightarrow> string option" where
  "grp gs i = (if i < length gs then gs ! i else None)"

definition str :: "string option \<Rightarrow> string" where
  "str x = (case x of None \<Rightarrow> [] | Some s \<Rightarrow> s)"

definition render_pieces :: "(string \<Rightarrow> string option list \<Rightarrow> string) \<Rightarrow> piece list \<Rightarrow> string" where
  "render_pieces f ps = concat (map (\<lambda>p. case p of Text t \<Rightarrow> t | Match m gs \<Rightarrow> f m gs) ps)"

definition replace_re ::
  "platform \<Rightarrow> regex \<Rightarrow> (string \<Rightarrow> string option list \<Rightarrow> string) \<Rightarrow> string \<Rightarrow> string" where
  "replace_re P re f s = render_pieces f (regex_pieces P re s)"


definition env_proxyOrigin :: "platform \<Rightarrow> string" where
  "env_proxyOrigin P =
     (if truthy (VERCEL_URL P) then ''https://'' @ str (VERCEL_URL P) else ''http://localhost:3000'')"

section \<open>Requests and responses\<close>

record request =
  req_method :: string
  req_url :: string
  req_query :: "(string \<times> string) list"
  req_catchall :: "string list option"
  req_headers :: "string \<rightharpoonup> string"
  req_body :: "string option"

datatype json = JStr string | JObj "(string \<times> json) list"

datatype body = NoBody | JsonBody "(string \<times> json) list" | Buffered string | Piped string

record response =
  status :: nat
  res_headers :: "string \<rightharpoonup> string"
  res_body :: body

text \<open>What a handler did: the response it wrote and the \<^verbatim>\<open>axios\<close> calls it made, in order.\<close>

record outcome =
  response :: response
  requests :: "config list"

definition json_query :: "(string \<times> string) list \<Rightarrow> json" where
  "json_query q = JObj (map (\<lambda>(k, v). (k, JStr v)) q)"

definition res_json ::
  "(string \<rightharpoonup> string) \<Rightarrow> nat \<Rightarrow> (string \<times> json) list \<Rightarrow> config list \<Rightarrow> outcome" where
  "res_json hs st obj reqs =
     \<lparr>response = \<lparr>status = st,
                   res_headers = hs(''content-type'' \<mapsto> ''application/json; charset=utf-8''),
                   res_body = JsonBody obj\<rparr>,
      requests = reqs\<rparr>"

definition res_end :: "(string \<rightharpoonup> string) \<Rightarrow> nat \<Rightarrow> outcome" where
  "res_end hs st = \<lparr>response = \<lparr>status = st, res_headers = hs, res_body = NoBody\<rparr>, requests = []\<rparr>"

definition res_redirect :: "(string \<rightharpoonup> string) \<Rightarrow> nat \<Rightarrow> string \<Rightarrow> config list \<Rightarrow> outcome" where
  "res_redirect hs st loc reqs =
     \<lparr>response = \<lparr>status = st, res_headers = hs(''location'' \<mapsto> loc), res_body = NoBody\<rparr>,
      requests = reqs\<rparr>"

definition res_write ::
  "(string \<rightharpoonup> string) \<Rightarrow> nat \<Rightarrow> (string \<rightharpoonup> string) \<Rightarrow> body \<Rightarrow> config list \<Rightarrow> outcome" where
  "res_write hs st written b reqs =
     \<lparr>response = \<lparr>status = st, res_headers = hs ++ written, res_body = b\<rparr>, requests = reqs\<rparr>"

definition cors :: "string \<Rightarrow> string \<Rightarrow> (string \<rightharpoonup> string)" where
  "cors methods allowed =
     [''access-control-allow-origin'' \<mapsto> ''*'',
      ''access-control-allow-methods'' \<mapsto> methods,
      ''access-control-allow-headers'' \<mapsto> allowed]"

definition delete_headers :: "string list \<Rightarrow> (string \<rightharpoonup> string) \<Rightarrow> (string \<rightharpoonup> string)" where
  "delete_headers ks hs = (\<lambda>k. if k \<in> set ks then None else hs k)"

definition default_user_agent :: string where
  "default_user_agent = ''Mozilla/5.0 (Windows NT 10.0; Win64; x64) AppleWebKit/537.36''"

section \<open>\<^verbatim>\<open>/api/proxy.js\<close>: the query-parameter proxy\<close>

subsection \<open>Rewriting one URL\<close>

text \<open>
  \<^verbatim>\<open>rewriteUrl(url, baseUrl, proxyOrigin)\<close>. The body is one \<^verbatim>\<open>try\<close> block whose handler
  returns \<^verbatim>\<open>url\<close>; the only calls that can throw are the two \<^verbatim>\<open>new URL\<close>.
\<close>

definition rewrite_skipped :: "string \<Rightarrow> bool" where
  "rewrite_skipped url =
     (url = [] \<or> startsWith url ''data:'' \<or> startsWith url ''javascript:''
      \<or> startsWith url ''mailto:'' \<or> startsWith url ''#'')"

definition absoluteUrl :: "platform \<Rightarrow> string \<Rightarrow> string \<Rightarrow> string option" where
  "absoluteUrl P url baseUrl =
     (if startsWith url ''http://'' \<or> startsWith url ''https://'' then Some url
      else if startsWith url ''//'' then
        (case new_URL P baseUrl None of
           None \<Rightarrow> None
         | Some baseUrlObj \<Rightarrow> Some (protocol baseUrlObj @ url))
      else map_option href (new_URL P url (Some baseUrl)))"

definition rewriteUrl :: "platform \<Rightarrow> string \<Rightarrow> string \<Rightarrow> string \<Rightarrow> string" where
  "rewriteUrl P url baseUrl proxyOrigin =
     (if rewrite_skipped url then url
      else (case absoluteUrl P url baseUrl of
              None \<Rightarrow> url
            | Some a \<Rightarrow> proxyOrigin @ ''/api/proxy?url='' @ encodeURIComponent a))"

subsection \<open>Rewriting a document\<close>

definition trim :: "string \<Rightarrow> string" where
  "trim s = rev (dropWhile (\<lambda>c. code c \<in> {9, 10, 11, 12, 13, 32}) (rev (dropWhile (\<lambda>c. code c \<in> {9, 10, 11, 12, 13, 32}) s)))"

definition quoted :: "string \<Rightarrow> string" where
  "quoted s = dquote @ s @ dquote"

text \<open>The callbacks of the \<^verbatim>\<open>replace\<close> calls of \<^verbatim>\<open>rewriteHtmlUrls\<close> and \<^verbatim>\<open>rewriteCssUrls\<close>.\<close>

definition proxy_attr_cb ::
  "platform \<Rightarrow> string \<Rightarrow> string \<Rightarrow> string \<Rightarrow> string \<Rightarrow> string option list \<Rightarrow> string" where
  "proxy_attr_cb P a baseUrl proxyOrigin m gs =
     a @ ''='' @ quoted (rewriteUrl P (str (grp gs 0)) baseUrl proxyOrigin)"

definition proxy_css_cb ::
  "platform \<Rightarrow> string \<Rightarrow> string \<Rightarrow> string \<Rightarrow> string option list \<Rightarrow> string" where
  "proxy_css_cb P baseUrl proxyOrigin m gs =
     ''url('' @ quoted (rewriteUrl P (str (grp gs 0)) baseUrl proxyOrigin) @ '')''"

definition proxy_import_cb ::
  "platform \<Rightarrow> string \<Rightarrow> string \<Rightarrow> string \<Rightarrow> string option list \<Rightarrow> string" where
  "proxy_import_cb P baseUrl proxyOrigin m gs =
     ''@import '' @ quoted (rewriteUrl P (str (grp gs 0)) baseUrl proxyOrigin)"

definition proxy_meta_cb ::
  "platform \<Rightarrow> string \<Rightarrow> string \<Rightarrow> string \<Rightarrow> string option list \<Rightarrow> string" where
  "proxy_meta_cb P baseUrl proxyOrigin m gs =
     replace_first (str (grp gs 0)) (rewriteUrl P (trim (str (grp gs 0))) baseUrl proxyOrigin) m"

definition rewriteHtmlUrls :: "platform \<Rightarrow> string \<Rightarrow> string \<Rightarrow> string \<Rightarrow> string option" where
  "rewriteHtmlUrls P html baseUrl proxyOrigin =
     (case new_URL P baseUrl None of
        None \<Rightarrow> None
      | Some baseUrlObj \<Rightarrow>
          (let h1 = replace_re P (AttrAnyWs Href) (proxy_attr_cb P ''href'' baseUrl proxyOrigin) html;
               h2 = replace_re P (AttrAnyWs Src) (proxy_attr_cb P ''src'' baseUrl proxyOrigin) h1;
               h3 = replace_re P (AttrAnyWs Action) (proxy_attr_cb P ''action'' baseUrl proxyOrigin) h2;
               h4 = replace_re P CssUrlWs (proxy_css_cb P baseUrl proxyOrigin) h3;
               h5 = replace_re P CssImport (proxy_import_cb P baseUrl proxyOrigin) h4;
               h6 = replace_re P MetaRefresh (proxy_meta_cb P baseUrl proxyOrigin) h5
           in Some h6))"

definition rewriteCssUrls :: "platform \<Rightarrow> string \<Rightarrow> string \<Rightarrow> string \<Rightarrow> string" where
  "rewriteCssUrls P css baseUrl proxyOrigin =
     replace_re P CssUrl (proxy_css_cb P baseUrl proxyOrigin) css"

text \<open>
  \<^verbatim>\<open>generateProxyScript\<close> returns the text of the injected script; only the two values
  interpolated into it are written out, the rest of the program text is constant.
\<close>

definition squoted :: "string \<Rightarrow> string" where
  "squoted s = [CHR 0x27] @ s @ [CHR 0x27]"

definition generateProxyScript :: "string \<Rightarrow> string \<Rightarrow> string" where
  "generateProxyScript baseUrl proxyOrigin =
     ''<script>(function() { const PROXY_ORIGIN = '' @ squoted proxyOrigin
       @ ''; const BASE_URL = '' @ squoted baseUrl
       @ ''; const PROXY_ENDPOINT = '' @ squoted ''/api/proxy'' @ ''; /* ... */ })();</script>''"

text \<open>
  \<^verbatim>\<open>rewriteProxyUrl(url)\<close> of that script, which the page runs on every link, form and
  request it makes; \<open>location_href\<close> is \<^verbatim>\<open>window.location.href\<close>. An exception inside is
  caught and the URL returned as it was.
\<close>

definition PROXY_ENDPOINT :: string where
  "PROXY_ENDPOINT = ''/api/proxy''"

definition client_skipped :: "string \<Rightarrow> bool" where
  "client_skipped url =
     (startsWith url ''data:'' \<or> startsWith url ''javascript:'' \<or> startsWith url ''mailto:''
      \<or> startsWith url ''tel:'' \<or> startsWith url ''#'' \<or> startsWith url ''blob:'')"

definition client_absoluteUrl :: "platform \<Rightarrow> string \<Rightarrow> string \<Rightarrow> string \<Rightarrow> string option" where
  "client_absoluteUrl P BASE_URL location_href url =
     (if startsWith url ''http://'' \<or> startsWith url ''https://'' then Some url
      else if startsWith url ''//'' then
        (case new_URL P BASE_URL None of
           None \<Rightarrow> None
         | Some baseUrlObj \<Rightarrow> Some (protocol baseUrlObj @ url))
      else if startsWith url ''/'' then
        (case new_URL P BASE_URL None of
           None \<Rightarrow> None
         | Some baseUrlObj \<Rightarrow> Some (origin baseUrlObj @ url))
      else
        (case (if includes_str location_href PROXY_ENDPOINT
               then decodeURIComponent (str (js_or (split_1 ''url='' location_href) (Some BASE_URL)))
               else Some BASE_URL) of
           None \<Rightarrow> None
         | Some currentUrl \<Rightarrow> map_option href (new_URL P url (Some currentUrl))))"

definition rewriteProxyUrl :: "platform \<Rightarrow> string \<Rightarrow> string \<Rightarrow> string \<Rightarrow> string \<Rightarrow> string" where
  "rewriteProxyUrl P PROXY_ORIGIN BASE_URL location_href url =
     (if url = [] then url
      else if client_skipped url then url
      else if includes_str url PROXY_ENDPOINT then url
      else (case client_absoluteUrl P BASE_URL location_href url of
              None \<Rightarrow> url
            | Some a \<Rightarrow> PROXY_ORIGIN @ PROXY_ENDPOINT @ ''?url='' @ encodeURIComponent a))"

definition injectProxyScript :: "string \<Rightarrow> string \<Rightarrow> string" where
  "injectProxyScript html script =
     (if includes_str html ''</head>'' then replace_first ''</head>'' (script @ ''</head>'') html
      else if includes_str html ''</body>'' then replace_first ''</body>'' (script @ ''</body>'') html
      else html @ script)"

subsection \<open>The handler\<close>

definition proxy_cors :: "string \<rightharpoonup> string" where
  "proxy_cors =
     cors ''GET, POST, OPTIONS, HEAD, PUT, DELETE''
          ''Content-Type, Authorization, X-Requested-With, X-Proxy-Origin''"

definition proxy_proxyOrigin :: "request \<Rightarrow> string" where
  "proxy_proxyOrigin req =
     str (js_or (req_headers req ''x-proxy-origin'')
           (js_or (req_headers req ''origin'')
             (js_or (map_option (before_first ''/api/proxy'') (req_headers req ''referer''))
               (Some (''https://'' @ (case req_headers req ''host'' of None \<Rightarrow> ''undefined'' | Some h \<Rightarrow> h))))))"

definition forbiddenHosts :: "string list" where
  "forbiddenHosts =
     [''localhost'', ''127.0.0.1'', ''0.0.0.0'', ''::1'', ''10.'', ''172.'', ''192.168.'',
      ''internal'', ''local'']"

definition proxy_normalizedUrl :: "string \<Rightarrow> string" where
  "proxy_normalizedUrl targetUrl =
     (if \<not> startsWith targetUrl ''http://'' \<and> \<not> startsWith targetUrl ''https://''
      then ''https://'' @ targetUrl else targetUrl)"

definition proxy_requestConfig :: "request \<Rightarrow> string \<Rightarrow> url \<Rightarrow> config" where
  "proxy_requestConfig req normalizedUrl urlObj =
     (let hs = [''user-agent'' \<mapsto> ''Mozilla/5.0 (Windows NT 10.0; Win64; x64) AppleWebKit/537.36 (KHTML, like Gecko) Chrome/120.0.0.0 Safari/537.36'',
                ''accept'' \<mapsto> str (js_or (req_headers req ''accept'')
                   (Some ''text/html,application/xhtml+xml,application/xml;q=0.9,image/webp,image/apng,*/*;q=0.8'')),
                ''accept-language'' \<mapsto> ''en-US,en;q=0.9'',
                ''accept-encoding'' \<mapsto> ''gzip, deflate, br'',
                ''cache-control'' \<mapsto> ''no-cache'',
                ''pragma'' \<mapsto> ''no-cache'',
                ''sec-fetch-dest'' \<mapsto> ''document'',
                ''sec-fetch-mode'' \<mapsto> ''navigate'',
                ''sec-fetch-site'' \<mapsto> ''cross-site'',
                ''upgrade-insecure-requests'' \<mapsto> ''1'',
                ''referer'' \<mapsto> origin urlObj];
          forward = ((req_method req = ''POST'' \<or> req_method req = ''PUT'') \<and> truthy (req_body req))
      in \<lparr>cfg_method = (if req_method req = [] then ''GET'' else req_method req),
          cfg_url = normalizedUrl,
          cfg_headers =
            (if forward
             then hs(''content-type'' \<mapsto>
                      str (js_or (req_headers req ''content-type'') (Some ''application/x-www-form-urlencoded'')))
             else hs),
          cfg_data = (if forward then req_body req else None),
          maxRedirects = 5,
          accept_below_500_only = True\<rparr>)"

definition proxy_responseHeaders :: "(string \<rightharpoonup> string) \<Rightarrow> (string \<rightharpoonup> string)" where
  "proxy_responseHeaders hs =
     (delete_headers [''x-frame-options'', ''content-security-policy'',
                      ''content-security-policy-report-only'', ''strict-transport-security'',
                      ''x-content-type-options''] hs)
       (''access-control-allow-origin'' \<mapsto> ''*'',
        ''access-control-allow-methods'' \<mapsto> ''GET, POST, OPTIONS, HEAD, PUT, DELETE'',
        ''x-frame-options'' \<mapsto> ''ALLOWALL'')"

definition proxy_catch :: "string \<Rightarrow> axios_error \<Rightarrow> config list \<Rightarrow> outcome" where
  "proxy_catch targetUrl err reqs =
     (case err of
        BadStatus st statusText \<Rightarrow>
          res_json proxy_cors st
            [(''error'', JStr (''HTTP '' @ nat_digits 20 st)),
             (''message'',
              JStr (''Target server responded with: '' @ nat_digits 20 st @ '' '' @ statusText)),
             (''url'', JStr targetUrl)] reqs
      | ErrCode c msg \<Rightarrow>
          if c = ''ENOTFOUND'' then
            res_json proxy_cors 404
              [(''error'', JStr ''Domain not found''),
               (''message'', JStr ''The requested domain could not be found. Please check the URL.''),
               (''url'', JStr targetUrl)] reqs
          else if c = ''ETIMEDOUT'' \<or> c = ''ECONNABORTED'' then
            res_json proxy_cors 408
              [(''error'', JStr ''Request timeout''),
               (''message'', JStr ''The request took too long to complete.''),
               (''url'', JStr targetUrl)] reqs
          else
            res_json proxy_cors 500
              [(''error'', JStr ''Proxy error''), (''message'', JStr (''Failed to fetch the URL: '' @ msg)),
               (''url'', JStr targetUrl)] reqs)"

definition proxy_handler :: "platform \<Rightarrow> request \<Rightarrow> outcome" where
  "proxy_handler P req =
     (if req_method req = ''OPTIONS'' then res_end proxy_cors 200
      else
        (let targetUrl = map_of (req_query req) ''url''; proxyOrigin = proxy_proxyOrigin req in
         if \<not> truthy targetUrl then
           res_json proxy_cors 400
             [(''error'', JStr ''Missing URL parameter''),
              (''message'', JStr ''Please provide a URL to proxy in the ?url= parameter''),
              (''receivedQuery'', json_query (req_query req)), (''requestUrl'', JStr (req_url req))] []
         else
           (let normalizedUrl = proxy_normalizedUrl (str targetUrl) in
            case new_URL P normalizedUrl None of
              None \<Rightarrow> proxy_catch (str targetUrl) (ErrCode ''ERR_INVALID_URL'' ''Invalid URL'') []
            | Some urlObj \<Rightarrow>
                if list_ex (\<lambda>h. includes_str (toLowerCase (hostname urlObj)) h) forbiddenHosts then
                  res_json proxy_cors 403
                    [(''error'', JStr ''Forbidden URL''),
                     (''message'', JStr ''Cannot proxy requests to internal/local addresses'')] []
                else
                  (let cfg = proxy_requestConfig req normalizedUrl urlObj in
                   case axios P cfg of
                     Rejected err \<Rightarrow> proxy_catch (str targetUrl) err [cfg]
                   | Resolved st statusText hs data \<Rightarrow>
                       (let contentType = str (js_or (hs ''content-type'') (Some []));
                            responseHeaders = proxy_responseHeaders hs;
                            baseUrl = protocol urlObj @ ''//'' @ host urlObj
                        in if includes_str contentType ''text/html'' then
                             (case rewriteHtmlUrls P data baseUrl proxyOrigin of
                                None \<Rightarrow> proxy_catch (str targetUrl) (ErrCode ''ERR_INVALID_URL'' ''Invalid URL'') [cfg]
                              | Some rewritten \<Rightarrow>
                                  (let htmlContent =
                                         injectProxyScript rewritten (generateProxyScript baseUrl proxyOrigin)
                                   in res_write proxy_cors st
                                        (responseHeaders
                                           (''content-type'' \<mapsto> ''text/html; charset=utf-8'',
                                            ''content-length'' \<mapsto> nat_digits 20 (length htmlContent)))
                                        (Buffered htmlContent) [cfg]))
                           else if includes_str contentType ''text/css'' then
                             (let cssContent = rewriteCssUrls P data baseUrl proxyOrigin
                              in res_write proxy_cors st
                                   (responseHeaders
                                      (''content-type'' \<mapsto> ''text/css; charset=utf-8'',
                                       ''content-length'' \<mapsto> nat_digits 20 (length cssContent)))
                                   (Buffered cssContent) [cfg])
                           else res_write proxy_cors st responseHeaders (Piped data) [cfg])))))"

section \<open>\<^verbatim>\<open>/api/browse.js\<close>: the proxy addressed by \<^verbatim>\<open>?p=scheme/host/path\<close>\<close>

definition nl :: string where
  "nl = [CHR 0x0A]"

text \<open>
  The template \<^verbatim>\<open>${proxyOrigin}/api/browse?p=${protocol}/${host}${path ? '/' + path : ''}\<close>,
  written out at every rewrite of the source, and the expression
  \<^verbatim>\<open>u.pathname === '/' ? '' : u.pathname.replace(/^\//, '')\<close>.
\<close>

definition browse_form :: "string \<Rightarrow> string \<Rightarrow> string \<Rightarrow> string \<Rightarrow> string" where
  "browse_form proxyOrigin proto h path =
     proxyOrigin @ ''/api/browse?p='' @ proto @ ''/'' @ h @ (if path \<noteq> [] then ''/'' @ path else [])"

definition clean_pathname :: "url \<Rightarrow> string" where
  "clean_pathname u = (if pathname u = ''/'' then [] else strip_slash (pathname u))"

definition insert_baseTag :: "string \<Rightarrow> string \<Rightarrow> string" where
  "insert_baseTag baseTag html =
     (if includes_str html ''<head>'' then replace_first ''<head>'' (''<head>'' @ nl @ ''  '' @ baseTag) html
      else if includes_str html ''<HEAD>'' then replace_first ''<HEAD>'' (''<HEAD>'' @ nl @ ''  '' @ baseTag) html
      else baseTag @ nl @ html)"

definition generateBrowseProxyScript :: "platform \<Rightarrow> string \<Rightarrow> string \<Rightarrow> string option" where
  "generateBrowseProxyScript P baseUrl proxyOrigin =
     (case new_URL P baseUrl None of
        None \<Rightarrow> None
      | Some baseUrlObj \<Rightarrow>
          Some (nl @ ''<script>(function() { const PROXY_ORIGIN = '' @ squoted proxyOrigin
                @ ''; const BASE_PROTOCOL = '' @ squoted (slice_0_m1 (protocol baseUrlObj))
                @ ''; const BASE_HOST = '' @ squoted (host baseUrlObj)
                @ ''; /* ... */ })();</script>''))"

text \<open>The callbacks of the \<^verbatim>\<open>replace\<close> calls of \<^verbatim>\<open>rewriteHtmlForBrowseProxy\<close>.\<close>

definition browse_abs_cb :: "string \<Rightarrow> string \<Rightarrow> string \<Rightarrow> string option list \<Rightarrow> string" where
  "browse_abs_cb a proxyOrigin m gs =
     (let proto = (if includes_str m ''https://'' then ''https'' else ''http'');
          cleanPath = strip_slash (str (js_or (grp gs 1) (Some [])))
      in a @ ''='' @ quoted (browse_form proxyOrigin proto (str (grp gs 0)) cleanPath))"

definition browse_root_cb :: "string \<Rightarrow> string \<Rightarrow> url \<Rightarrow> string \<Rightarrow> string option list \<Rightarrow> string" where
  "browse_root_cb a proxyOrigin baseUrlObj m gs =
     a @ ''='' @ quoted (browse_form proxyOrigin (slice_0_m1 (protocol baseUrlObj)) (host baseUrlObj)
                           (strip_slash (str (grp gs 0))))"

definition browse_rel_cb ::
  "platform \<Rightarrow> string \<Rightarrow> string \<Rightarrow> string \<Rightarrow> string \<Rightarrow> string option list \<Rightarrow> string" where
  "browse_rel_cb P a proxyOrigin baseUrl m gs =
     (case new_URL P (str (grp gs 0)) (Some baseUrl) of
        None \<Rightarrow> m
      | Some resolvedUrl \<Rightarrow>
          a @ ''='' @ quoted (browse_form proxyOrigin (slice_0_m1 (protocol resolvedUrl)) (host resolvedUrl)
                                (clean_pathname resolvedUrl)))"

definition browse_form_cb ::
  "platform \<Rightarrow> string \<Rightarrow> string \<Rightarrow> url \<Rightarrow> string \<Rightarrow> string option list \<Rightarrow> string" where
  "browse_form_cb P proxyOrigin baseUrl baseUrlObj m gs =
     (let formStart = str (grp gs 0); act = grp gs 1; formEnd = str (grp gs 2);
          proto = slice_0_m1 (protocol baseUrlObj);
          targetAction =
            (if \<not> truthy act \<or> act = Some ''#'' then
               (let currentPath = clean_pathname baseUrlObj in
                if includes_str (pathname baseUrlObj) ''/search'' \<or> includes_str currentPath ''search''
                then Some (proxyOrigin @ ''/api/browse?p='' @ proto @ ''/'' @ host baseUrlObj @ ''/search'')
                else Some (browse_form proxyOrigin proto (host baseUrlObj) currentPath))
             else if startsWith (str act) ''/'' then
               Some (browse_form proxyOrigin proto (host baseUrlObj) (strip_slash (str act)))
             else if startsWith (str act) ''http'' then
               map_option (\<lambda>actionUrl. browse_form proxyOrigin (slice_0_m1 (protocol actionUrl))
                                         (host actionUrl) (clean_pathname actionUrl))
                 (new_URL P (str act) None)
             else
               map_option (\<lambda>resolvedUrl. browse_form proxyOrigin (slice_0_m1 (protocol resolvedUrl))
                                           (host resolvedUrl) (clean_pathname resolvedUrl))
                 (new_URL P (str act) (Some baseUrl)))
      in case targetAction of
           None \<Rightarrow> m
         | Some t \<Rightarrow> formStart @ '' action='' @ quoted t @ formEnd)"

definition rewriteHtmlForBrowseProxy :: "platform \<Rightarrow> string \<Rightarrow> string \<Rightarrow> string option" where
  "rewriteHtmlForBrowseProxy P html baseUrl =
     (case new_URL P baseUrl None of
        None \<Rightarrow> None
      | Some baseUrlObj \<Rightarrow>
          (let proxyOrigin = env_proxyOrigin P;
               h0 = replace_re P BaseTag (\<lambda>m gs. []) html;
               baseProxyPath = browse_form proxyOrigin (slice_0_m1 (protocol baseUrlObj)) (host baseUrlObj)
                                 (clean_pathname baseUrlObj);
               baseTag = ''<base href='' @ quoted baseProxyPath @ '' target='' @ quoted ''_blank'' @ ''>'';
               h1 = insert_baseTag baseTag h0;
               h2 = replace_re P (AttrAbs Href) (browse_abs_cb ''href'' proxyOrigin) h1;
               h3 = replace_re P (AttrAbs Src) (browse_abs_cb ''src'' proxyOrigin) h2;
               h4 = replace_re P (AttrRoot Href) (browse_root_cb ''href'' proxyOrigin baseUrlObj) h3;
               h5 = replace_re P (AttrRoot Src) (browse_root_cb ''src'' proxyOrigin baseUrlObj) h4;
               h6 = replace_re P HrefRel (browse_rel_cb P ''href'' proxyOrigin baseUrl) h5;
               h7 = replace_re P SrcRel (browse_rel_cb P ''src'' proxyOrigin baseUrl) h6;
               h8 = replace_re P FormTag (browse_form_cb P proxyOrigin baseUrl baseUrlObj) h7
           in case generateBrowseProxyScript P baseUrl proxyOrigin of
                None \<Rightarrow> None
              | Some script \<Rightarrow> Some (replace_first ''</body>'' (script @ nl @ ''</body>'') h8)))"

subsection \<open>Decoding the target\<close>

text \<open>
  Lines 70 to 90: the target is put together from the \<^verbatim>\<open>p\<close> parameter and every other
  query parameter; a \<^verbatim>\<open>p\<close> without \<^verbatim>\<open>/\<close> throws \<^verbatim>\<open>Invalid path format\<close>.
\<close>

definition browse_targetUrl :: "string \<Rightarrow> (string \<times> string) list \<Rightarrow> string option" where
  "browse_targetUrl pathParam q =
     (let parts = split_chr CHR ''/'' pathParam in
      if length parts < 2 then None
      else
        (let proto = parts ! 0; domain = parts ! 1;
             path = join_str ''/'' (drop 2 parts);
             queryString = URLSearchParams_toString (filter (\<lambda>(k, v). k \<noteq> ''p'') q)
         in Some (proto @ ''://'' @ domain @ (if path \<noteq> [] then ''/'' @ path else [])
                  @ (if queryString \<noteq> [] then ''?'' @ queryString else []))))"

definition strip_common_headers :: "(string \<rightharpoonup> string) \<Rightarrow> (string \<rightharpoonup> string)" where
  "strip_common_headers hs =
     delete_headers [''content-encoding'', ''content-length'', ''transfer-encoding'',
                     ''x-frame-options'', ''content-security-policy''] hs"

definition std_cors :: "string \<rightharpoonup> string" where
  "std_cors =
     cors ''GET, POST, OPTIONS, HEAD, PUT, DELETE'' ''Content-Type, Authorization, X-Requested-With''"

text \<open>
  The request of the handlers that forward the caller's own headers:
  \<^verbatim>\<open>{ method: req.method, url, headers: {...req.headers, host, 'user-agent': ...},
  data: req.method !== 'GET' && req.method !== 'HEAD' ? req.body : undefined, ... }\<close>.
\<close>

definition forward_config :: "request \<Rightarrow> string \<Rightarrow> string \<Rightarrow> config" where
  "forward_config req targetUrl h =
     \<lparr>cfg_method = req_method req,
      cfg_url = targetUrl,
      cfg_headers = (req_headers req)
         (''host'' \<mapsto> h,
          ''user-agent'' \<mapsto> str (js_or (req_headers req ''user-agent'') (Some default_user_agent))),
      cfg_data = (if req_method req \<noteq> ''GET'' \<and> req_method req \<noteq> ''HEAD'' then req_body req else None),
      maxRedirects = 5,
      accept_below_500_only = False\<rparr>"

definition browse_referer_redirect :: "platform \<Rightarrow> request \<Rightarrow> string option" where
  "browse_referer_redirect P req =
     (if req_query req = [] then None
      else case req_headers req ''referer'' of
        None \<Rightarrow> None
      | Some referer \<Rightarrow>
          if referer = [] \<or> \<not> includes_str referer ''/api/browse?p='' then None
          else (case new_URL P referer None of
                  None \<Rightarrow> None
                | Some refererUrl \<Rightarrow>
                    (case map_of (qs_parse (drop 1 (search refererUrl))) ''p'' of
                       None \<Rightarrow> None
                     | Some refererPParam \<Rightarrow>
                         (let parts = split_chr CHR ''/'' refererPParam in
                          if refererPParam = [] \<or> length parts < 2 then None
                          else
                            (let searchPath = (if includes_str (req_url req) ''/search'' then ''search'' else []);
                                 newPParam = parts ! 0 @ ''/'' @ parts ! 1
                                             @ (if searchPath \<noteq> [] then ''/'' @ searchPath else []);
                                 queryString = URLSearchParams_toString (req_query req)
                             in Some (''/api/browse?p='' @ newPParam @ ''&'' @ queryString))))))"

definition browse_error :: "string \<Rightarrow> string \<Rightarrow> config list \<Rightarrow> outcome" where
  "browse_error msg pathParam reqs =
     res_json std_cors 500
       [(''error'', JStr ''Proxy request failed''), (''message'', JStr msg),
        (''pathParam'', JStr pathParam)] reqs"

definition axios_message :: "axios_error \<Rightarrow> string" where
  "axios_message e =
     (case e of
        BadStatus st statusText \<Rightarrow> ''Request failed with status code '' @ nat_digits 20 st
      | ErrCode c msg \<Rightarrow> msg)"

definition browse_handler :: "platform \<Rightarrow> request \<Rightarrow> outcome" where
  "browse_handler P req =
     (if req_method req = ''OPTIONS'' then res_end std_cors 200
      else
        (let pathParam = map_of (req_query req) ''p'' in
         if \<not> truthy pathParam then
           (case browse_referer_redirect P req of
              Some redirectUrl \<Rightarrow> res_redirect std_cors 302 redirectUrl []
            | None \<Rightarrow>
                res_json std_cors 400
                  [(''error'', JStr ''Missing path parameter''),
                   (''message'', JStr ''Expected format: /api/browse?p=https/domain.com/path''),
                   (''example'', JStr ''/api/browse?p=https/www.google.com/search''),
                   (''receivedQuery'', json_query (req_query req)),
                   (''requestUrl'', JStr (req_url req))] [])
         else
           (case browse_targetUrl (str pathParam) (req_query req) of
              None \<Rightarrow> browse_error ''Invalid path format'' (str pathParam) []
            | Some targetUrl \<Rightarrow>
                (let cfg = forward_config req targetUrl (split_chr CHR ''/'' (str pathParam) ! 1) in
                 case axios P cfg of
                   Rejected err \<Rightarrow> browse_error (axios_message err) (str pathParam) [cfg]
                 | Resolved st statusText hs data \<Rightarrow>
                     (let responseHeaders = strip_common_headers hs;
                          contentType = str (js_or (responseHeaders ''content-type'') (Some []))
                      in if includes_str contentType ''text/html'' then
                           (case rewriteHtmlForBrowseProxy P data targetUrl of
                              None \<Rightarrow> browse_error ''Invalid URL'' (str pathParam) [cfg]
                            | Some htmlContent \<Rightarrow>
                                res_write std_cors st
                                  (responseHeaders(''content-type'' \<mapsto> ''text/html; charset=utf-8''))
                                  (Buffered htmlContent) [cfg])
                         else res_write std_cors st responseHeaders (Piped data) [cfg])))))"

subsection \<open>The injected script\<close>

text \<open>
  \<^verbatim>\<open>convertToBrowseProxy(url)\<close> of the script that \<^verbatim>\<open>generateBrowseProxyScript\<close> injects,
  with the constants \<^verbatim>\<open>PROXY_ORIGIN\<close>, \<^verbatim>\<open>BASE_PROTOCOL\<close> and \<^verbatim>\<open>BASE_HOST\<close> as arguments.
\<close>

definition convertToBrowseProxy ::
  "platform \<Rightarrow> string \<Rightarrow> string \<Rightarrow> string \<Rightarrow> string \<Rightarrow> string" where
  "convertToBrowseProxy P PROXY_ORIGIN BASE_PROTOCOL BASE_HOST u =
     (if u = [] \<or> startsWith u ''#'' \<or> startsWith u ''javascript:'' \<or> startsWith u ''data:'' then u
      else
        (case (if startsWith u ''http://'' \<or> startsWith u ''https://'' then new_URL P u None
               else if startsWith u ''//'' then new_URL P (BASE_PROTOCOL @ '':'' @ u) None
               else if startsWith u ''/'' then new_URL P (BASE_PROTOCOL @ ''://'' @ BASE_HOST @ u) None
               else new_URL P u (Some (BASE_PROTOCOL @ ''://'' @ BASE_HOST @ ''/''))) of
           None \<Rightarrow> u
         | Some a \<Rightarrow>
             PROXY_ORIGIN @ ''/api/browse?p='' @ slice_0_m1 (protocol a) @ ''/'' @ host a
               @ (if strip_slash (pathname a) \<noteq> [] then ''/'' @ strip_slash (pathname a) else [])
               @ search a))"

section \<open>\<^verbatim>\<open>/api/browse/[...segments].js\<close>: the target in the path segments\<close>

text \<open>
  \<^verbatim>\<open>s.replace(/name=[^&]*/g, '')\<close>, \<^verbatim>\<open>s.replace(/^&/, '')\<close> and \<^verbatim>\<open>s.replace(/&&/g, '&')\<close>.
  In \<open>strip_param\<close>, \<open>k\<close> counts the characters of a matched \<^verbatim>\<open>name=\<close> still to drop and
  \<open>sk\<close> says that the characters up to the next \<^verbatim>\<open>&\<close> belong to the match.
\<close>

fun strip_param :: "string \<Rightarrow> nat \<Rightarrow> bool \<Rightarrow> string \<Rightarrow> string" where
  "strip_param pre k sk [] = []"
| "strip_param pre k sk (c # cs) =
     (if k > 0 then strip_param pre (k - 1) True cs
      else if sk \<and> c \<noteq> CHR ''&'' then strip_param pre 0 True cs
      else if pre \<noteq> [] \<and> startsWith (c # cs) pre then strip_param pre (length pre - 1) True cs
      else c # strip_param pre 0 False cs)"

definition strip_amp :: "string \<Rightarrow> string" where
  "strip_amp s = (case s of [] \<Rightarrow> [] | c # cs \<Rightarrow> if c = CHR ''&'' then cs else s)"

fun squeeze_amp :: "string \<Rightarrow> string" where
  "squeeze_amp (a # b # r) =
     (if a = CHR ''&'' \<and> b = CHR ''&'' then CHR ''&'' # squeeze_amp r else a # squeeze_amp (b # r))"
| "squeeze_amp s = s"

definition segments_queryString :: "string \<Rightarrow> string" where
  "segments_queryString u =
     (if includes_str u ''?''
      then squeeze_amp (strip_amp (strip_param ''segments='' 0 False (url_query_string u)))
      else [])"

definition segments_targetUrl :: "string list \<Rightarrow> string \<Rightarrow> string" where
  "segments_targetUrl segs u =
     (let proto = segs ! 0; domain = segs ! 1; path = join_str ''/'' (drop 2 segs);
          queryString = segments_queryString u
      in proto @ ''://'' @ domain @ (if path \<noteq> [] then ''/'' @ path else [])
         @ (if queryString \<noteq> [] then ''?'' @ queryString else []))"

definition path_form :: "string \<Rightarrow> string \<Rightarrow> string \<Rightarrow> string \<Rightarrow> string" where
  "path_form proxyOrigin proto h path =
     proxyOrigin @ ''/api/browse/'' @ proto @ ''/'' @ h @ (if path \<noteq> [] then ''/'' @ path else [])"

definition path_abs_cb :: "string \<Rightarrow> string \<Rightarrow> string \<Rightarrow> string option list \<Rightarrow> string" where
  "path_abs_cb a proxyOrigin m gs =
     (let proto = (if includes_str m ''https://'' then ''https'' else ''http'');
          cleanPath = strip_slash (str (js_or (grp gs 1) (Some [])))
      in a @ ''='' @ quoted (path_form proxyOrigin proto (str (grp gs 0)) cleanPath))"

definition path_form_cb :: "string \<Rightarrow> url \<Rightarrow> string \<Rightarrow> string option list \<Rightarrow> string" where
  "path_form_cb proxyOrigin baseUrlObj m gs =
     (let formStart = str (grp gs 0); act = grp gs 1; formEnd = str (grp gs 2);
          pre = proxyOrigin @ ''/api/browse/'' @ slice_0_m1 (protocol baseUrlObj) @ ''/'' @ host baseUrlObj
      in if \<not> truthy act \<or> act = Some ''#'' then
           formStart @ '' action='' @ quoted (pre @ pathname baseUrlObj) @ formEnd
         else if startsWith (str act) ''/'' then
           formStart @ '' action='' @ quoted (pre @ str act) @ formEnd
         else m)"

definition generatePathProxyScript :: "platform \<Rightarrow> string \<Rightarrow> string \<Rightarrow> string option" where
  "generatePathProxyScript P baseUrl proxyOrigin =
     (case new_URL P baseUrl None of
        None \<Rightarrow> None
      | Some baseUrlObj \<Rightarrow>
          Some (nl @ ''<script>(function() { const PROXY_ORIGIN = '' @ squoted proxyOrigin
                @ ''; const BASE_PROTOCOL = '' @ squoted (slice_0_m1 (protocol baseUrlObj))
                @ ''; const BASE_HOST = '' @ squoted (host baseUrlObj)
                @ ''; /* ... */ })();</script>''))"

definition rewriteHtmlForPathProxy :: "platform \<Rightarrow> string \<Rightarrow> string \<Rightarrow> string option" where
  "rewriteHtmlForPathProxy P html baseUrl =
     (case new_URL P baseUrl None of
        None \<Rightarrow> None
      | Some baseUrlObj \<Rightarrow>
          (let proxyOrigin = env_proxyOrigin P;
               h0 = replace_re P BaseTag (\<lambda>m gs. []) html;
               baseProxyPath = proxyOrigin @ ''/api/browse/'' @ slice_0_m1 (protocol baseUrlObj) @ ''/''
                               @ host baseUrlObj @ ''/'';
               baseTag = ''<base href='' @ quoted baseProxyPath @ '' target='' @ quoted ''_blank'' @ ''>'';
               h1 = insert_baseTag baseTag h0;
               h2 = replace_re P (AttrAbs Href) (path_abs_cb ''href'' proxyOrigin) h1;
               h3 = replace_re P (AttrAbs Src) (path_abs_cb ''src'' proxyOrigin) h2;
               h4 = replace_re P (AttrAbs Action) (path_abs_cb ''action'' proxyOrigin) h3;
               h5 = replace_re P FormTag (path_form_cb proxyOrigin baseUrlObj) h4
           in case generatePathProxyScript P baseUrl proxyOrigin of
                None \<Rightarrow> None
              | Some script \<Rightarrow> Some (replace_first ''</body>'' (script @ nl @ ''</body>'') h5)))"

definition plain_error :: "string \<Rightarrow> config list \<Rightarrow> outcome" where
  "plain_error msg reqs =
     res_json std_cors 500 [(''error'', JStr ''Proxy request failed''), (''message'', JStr msg)] reqs"

definition segments_handler :: "platform \<Rightarrow> request \<Rightarrow> outcome" where
  "segments_handler P req =
     (if req_method req = ''OPTIONS'' then res_end std_cors 200
      else case req_catchall req of
        None \<Rightarrow>
          res_json std_cors 400
            [(''error'', JStr ''Invalid URL structure''),
             (''message'', JStr ''Expected format: /api/browse/https/domain.com/path''),
             (''example'', JStr ''/api/browse/https/www.google.com/search'')] []
      | Some segs \<Rightarrow>
          if length segs < 2 then
            res_json std_cors 400
              [(''error'', JStr ''Invalid URL structure''),
               (''message'', JStr ''Expected format: /api/browse/https/domain.com/path''),
               (''example'', JStr ''/api/browse/https/www.google.com/search'')] []
          else
            (let targetUrl = segments_targetUrl segs (req_url req);
                 cfg = forward_config req targetUrl (segs ! 1)
             in case axios P cfg of
                  Rejected err \<Rightarrow> plain_error (axios_message err) [cfg]
                | Resolved st statusText hs data \<Rightarrow>
                    (let responseHeaders = strip_common_headers hs;
                         contentType = str (js_or (responseHeaders ''content-type'') (Some []))
                     in if includes_str contentType ''text/html'' then
                          (case rewriteHtmlForPathProxy P data targetUrl of
                             None \<Rightarrow> plain_error ''Invalid URL'' [cfg]
                           | Some htmlContent \<Rightarrow>
                               res_write std_cors st
                                 (responseHeaders(''content-type'' \<mapsto> ''text/html; charset=utf-8''))
                                 (Buffered htmlContent) [cfg])
                        else res_write std_cors st responseHeaders (Piped data) [cfg])))"

text \<open>\<^verbatim>\<open>convertToPathProxy(url)\<close> of the injected script.\<close>

definition convertToPathProxy ::
  "platform \<Rightarrow> string \<Rightarrow> string \<Rightarrow> string \<Rightarrow> string \<Rightarrow> string" where
  "convertToPathProxy P PROXY_ORIGIN BASE_PROTOCOL BASE_HOST u =
     (if u = [] \<or> startsWith u ''#'' \<or> startsWith u ''javascript:'' \<or> startsWith u ''data:'' then u
      else
        (case (if startsWith u ''http://'' \<or> startsWith u ''https://'' then new_URL P u None
               else if startsWith u ''//'' then new_URL P (BASE_PROTOCOL @ '':'' @ u) None
               else if startsWith u ''/'' then new_URL P (BASE_PROTOCOL @ ''://'' @ BASE_HOST @ u) None
               else new_URL P u (Some (BASE_PROTOCOL @ ''://'' @ BASE_HOST @ ''/''))) of
           None \<Rightarrow> u
         | Some a \<Rightarrow>
             PROXY_ORIGIN @ ''/api/browse/'' @ slice_0_m1 (protocol a) @ ''/'' @ host a
               @ (if strip_slash (pathname a) \<noteq> [] then ''/'' @ strip_slash (pathname a) else [])
               @ search a))"

section \<open>\<^verbatim>\<open>/api/pp.js\<close>: the target as a base64 token in \<^verbatim>\<open>__cpo\<close>\<close>

definition pp_form :: "string \<Rightarrow> string \<Rightarrow> string" where
  "pp_form proxyOrigin encodedUrl = proxyOrigin @ ''/api/pp?__cpo='' @ encodedUrl @ ''&ko=s''"

definition pp_abs_cb :: "string \<Rightarrow> string \<Rightarrow> string \<Rightarrow> string option list \<Rightarrow> string" where
  "pp_abs_cb a proxyOrigin m gs =
     (let u = str (grp gs 0);
          fullUrl = (if startsWith u ''http'' then u else ''https://'' @ u)
      in a @ ''='' @ quoted (pp_form proxyOrigin (toString_base64 fullUrl)))"

definition pp_form_cb :: "platform \<Rightarrow> string \<Rightarrow> string \<Rightarrow> string \<Rightarrow> string option list \<Rightarrow> string" where
  "pp_form_cb P proxyOrigin encodedUrl m gs =
     (let currentProxyUrl = pp_form proxyOrigin encodedUrl;
          a0 = str (grp gs 0) @ str (grp gs 2);
          a1 = (if \<not> includes_str a0 ''method='' then replace_first ''>'' ('' method='' @ quoted ''POST'' @ ''>'') a0
                else a0);
          a2 = replace_re P ActionAttr (\<lambda>m gs. []) a1
      in replace_first ''>'' ('' action='' @ quoted currentProxyUrl @ ''>'') a2)"

definition createPermalinkBar :: "string \<Rightarrow> string" where
  "createPermalinkBar targetUrl =
     nl @ ''<div id='' @ quoted ''proxy-permalink-bar'' @ ''><input type='' @ quoted ''text''
       @ '' id='' @ quoted ''proxy-address-bar'' @ '' value='' @ quoted targetUrl @ '' readonly></div>''"

definition generateProxyProxyScript :: "string \<Rightarrow> string \<Rightarrow> string \<Rightarrow> string" where
  "generateProxyProxyScript targetUrl encodedUrl proxyOrigin =
     nl @ ''<script>(function() { const TARGET_URL = '' @ squoted targetUrl
       @ ''; const ENCODED_URL = '' @ squoted encodedUrl
       @ ''; const PROXY_ORIGIN = '' @ squoted proxyOrigin @ ''; /* ... */ })();</script>''"

definition rewriteHtmlProxyProxy :: "platform \<Rightarrow> string \<Rightarrow> string \<Rightarrow> string \<Rightarrow> string option" where
  "rewriteHtmlProxyProxy P html targetUrl encodedUrl =
     (case new_URL P targetUrl None of
        None \<Rightarrow> None
      | Some targetUrlObj \<Rightarrow>
          (let proxyOrigin = env_proxyOrigin P;
               h0 = replace_re P BaseTag (\<lambda>m gs. []) html;
               baseTag = ''<base href='' @ quoted (pp_form proxyOrigin encodedUrl)
                         @ '' target='' @ quoted ''_self'' @ ''>'';
               h1 = insert_baseTag baseTag h0;
               h2 = replace_re P (AttrAbsPP Href) (pp_abs_cb ''href'' proxyOrigin) h1;
               h3 = replace_re P (AttrAbsPP Src) (pp_abs_cb ''src'' proxyOrigin) h2;
               h4 = replace_re P FormTag (pp_form_cb P proxyOrigin encodedUrl) h3;
               permalinkBar = createPermalinkBar targetUrl;
               script = generateProxyProxyScript targetUrl encodedUrl proxyOrigin;
               h5 = (if includes_str h4 ''<body>'' then replace_first ''<body>'' (''<body>'' @ nl @ permalinkBar) h4
                     else if includes_str h4 ''<body '' then
                       replace_re P BodyOpen (\<lambda>m gs. str (grp gs 0) @ nl @ permalinkBar) h4
                     else h4)
           in Some (replace_first ''</body>'' (script @ nl @ ''</body>'') h5)))"

text \<open>
  Lines 33 to 57: a form-encoded POST whose body has \<^verbatim>\<open>q=\<close> or \<^verbatim>\<open>query=\<close> is appended to
  the target as a query string; any other form-encoded POST body becomes \<^verbatim>\<open>requestData\<close>.
\<close>

definition pp_form_post :: "request \<Rightarrow> bool" where
  "pp_form_post req =
     (req_method req = ''POST''
      \<and> (case req_headers req ''content-type'' of
            None \<Rightarrow> False
          | Some ct \<Rightarrow> includes_str ct ''application/x-www-form-urlencoded''))"

definition pp_search_post :: "request \<Rightarrow> bool" where
  "pp_search_post req =
     (pp_form_post req
      \<and> (includes_str (str (req_body req)) ''q='' \<or> includes_str (str (req_body req)) ''query=''))"

definition pp_requestUrl :: "request \<Rightarrow> string \<Rightarrow> string" where
  "pp_requestUrl req targetUrl =
     (if pp_search_post req
      then targetUrl @ (if includes_str targetUrl ''?'' then ''&'' else ''?'') @ str (req_body req)
      else targetUrl)"

definition pp_requestData :: "request \<Rightarrow> string option" where
  "pp_requestData req =
     (if pp_form_post req \<and> \<not> pp_search_post req then Some (str (req_body req)) else None)"

definition pp_config :: "request \<Rightarrow> string \<Rightarrow> url \<Rightarrow> config" where
  "pp_config req targetUrl targetUrlObj =
     \<lparr>cfg_method = (if req_method req = ''POST'' \<and> \<not> truthy (pp_requestData req) then ''GET''
                    else req_method req),
      cfg_url = pp_requestUrl req targetUrl,
      cfg_headers = (req_headers req)
         (''host'' \<mapsto> host targetUrlObj,
          ''user-agent'' \<mapsto> str (js_or (req_headers req ''user-agent'') (Some default_user_agent)),
          ''origin'' \<mapsto> origin targetUrlObj,
          ''referer'' \<mapsto> targetUrl),
      cfg_data = pp_requestData req,
      maxRedirects = 5,
      accept_below_500_only = False\<rparr>"

definition pp_error :: "string \<Rightarrow> string \<Rightarrow> config list \<Rightarrow> outcome" where
  "pp_error msg encodedUrl reqs =
     res_json std_cors 500
       [(''error'', JStr ''Proxy request failed''), (''message'', JStr msg),
        (''encodedUrl'', JStr encodedUrl)] reqs"

definition pp_handler :: "platform \<Rightarrow> request \<Rightarrow> outcome" where
  "pp_handler P req =
     (if req_method req = ''OPTIONS'' then res_end std_cors 200
      else
        (let encodedUrl = map_of (req_query req) ''__cpo'' in
         if \<not> truthy encodedUrl then
           res_json std_cors 400
             [(''error'', JStr ''Missing encoded URL parameter''),
              (''message'', JStr ''Expected format: /api/pp?__cpo=BASE64_ENCODED_URL&ko=s''),
              (''example'', JStr ''/api/pp?__cpo=aHR0cHM6Ly93d3cuZ29vZ2xlLmNvbQ&ko=s'')] []
         else
           (let targetUrl = from_base64 (str encodedUrl) in
            case new_URL P targetUrl None of
              None \<Rightarrow> pp_error ''Invalid URL'' (str encodedUrl) []
            | Some targetUrlObj \<Rightarrow>
                (let cfg = pp_config req targetUrl targetUrlObj in
                 case axios P cfg of
                   Rejected err \<Rightarrow> pp_error (axios_message err) (str encodedUrl) [cfg]
                 | Resolved st statusText hs data \<Rightarrow>
                     if 300 \<le> st \<and> st < 400 \<and> truthy (hs ''location'') then
                       (case new_URL P (str (hs ''location'')) (Some targetUrl) of
                          None \<Rightarrow> pp_error ''Invalid URL'' (str encodedUrl) [cfg]
                        | Some redirectUrl \<Rightarrow>
                            res_redirect std_cors 302
                              (pp_form (env_proxyOrigin P) (toString_base64 (href redirectUrl))) [cfg])
                     else
                       (let responseHeaders = strip_common_headers hs;
                            contentType = str (js_or (responseHeaders ''content-type'') (Some []))
                        in if includes_str contentType ''text/html'' then
                             (case rewriteHtmlProxyProxy P data targetUrl (str encodedUrl) of
                                None \<Rightarrow> pp_error ''Invalid URL'' (str encodedUrl) [cfg]
                              | Some htmlContent \<Rightarrow>
                                  res_write std_cors st
                                    (responseHeaders(''content-type'' \<mapsto> ''text/html; charset=utf-8''))
                                    (Buffered htmlContent) [cfg])
                           else res_write std_cors st responseHeaders (Piped data) [cfg])))))"

section \<open>\<^verbatim>\<open>/api/encode/[encoded].js\<close>: the target as a base64 path segment\<close>

definition encoded_form :: "string \<Rightarrow> string \<Rightarrow> string" where
  "encoded_form proxyOrigin encoded = proxyOrigin @ ''/api/encode/'' @ encoded"

definition encoded_abs_cb :: "string \<Rightarrow> nat \<Rightarrow> string \<Rightarrow> string \<Rightarrow> string option list \<Rightarrow> string" where
  "encoded_abs_cb a n proxyOrigin m gs =
     a @ ''='' @ quoted (encoded_form proxyOrigin (toString_base64 (drop n (butlast m))))"

definition generateEncodedProxyScript :: "string \<Rightarrow> string \<Rightarrow> string" where
  "generateEncodedProxyScript baseUrl proxyOrigin =
     nl @ ''<script>(function() { const PROXY_ORIGIN = '' @ squoted proxyOrigin
       @ ''; const BASE_URL = '' @ squoted baseUrl @ ''; /* ... */ })();</script>''"

definition rewriteHtmlForEncoded :: "platform \<Rightarrow> string \<Rightarrow> string \<Rightarrow> string option" where
  "rewriteHtmlForEncoded P html baseUrl =
     (let proxyOrigin = env_proxyOrigin P;
          h0 = replace_re P BaseTag (\<lambda>m gs. []) html
      in case new_URL P baseUrl None of
           None \<Rightarrow> None
         | Some baseUrlObj \<Rightarrow>
             (let encodedBase = toString_base64 (origin baseUrlObj @ ''/'');
                  baseTag = ''<base href='' @ quoted (encoded_form proxyOrigin encodedBase)
                            @ '' target='' @ quoted ''_blank'' @ ''>'';
                  h1 = insert_baseTag baseTag h0;
                  h2 = replace_re P (AttrAbsEnc Href) (encoded_abs_cb ''href'' 6 proxyOrigin) h1;
                  h3 = replace_re P (AttrAbsEnc Src) (encoded_abs_cb ''src'' 5 proxyOrigin) h2;
                  h4 = replace_re P (AttrAbsEnc Action) (encoded_abs_cb ''action'' 8 proxyOrigin) h3;
                  script = generateEncodedProxyScript baseUrl proxyOrigin
              in Some (replace_first ''</body>'' (script @ nl @ ''</body>'') h4)))"

definition encoded_handler :: "platform \<Rightarrow> request \<Rightarrow> outcome" where
  "encoded_handler P req =
     (if req_method req = ''OPTIONS'' then res_end std_cors 200
      else
        (let encoded = map_of (req_query req) ''encoded'' in
         if \<not> truthy encoded then
           res_json std_cors 400
             [(''error'', JStr ''Missing encoded URL''),
              (''message'', JStr ''Please provide a base64 encoded URL'')] []
         else
           (let targetUrl = from_base64 (str encoded) in
            case new_URL P targetUrl None of
              None \<Rightarrow> plain_error ''Invalid URL'' []
            | Some targetUrlObj \<Rightarrow>
                (let cfg = forward_config req targetUrl (host targetUrlObj) in
                 case axios P cfg of
                   Rejected err \<Rightarrow> plain_error (axios_message err) [cfg]
                 | Resolved st statusText hs data \<Rightarrow>
                     (let responseHeaders = strip_common_headers hs;
                          contentType = str (js_or (responseHeaders ''content-type'') (Some []))
                      in if includes_str contentType ''text/html'' then
                           (case rewriteHtmlForEncoded P data targetUrl of
                              None \<Rightarrow> plain_error ''Invalid URL'' [cfg]
                            | Some htmlContent \<Rightarrow>
                                res_write std_cors st
                                  (responseHeaders(''content-type'' \<mapsto> ''text/html; charset=utf-8''))
                                  (Buffered htmlContent) [cfg])
                         else res_write std_cors st responseHeaders (Piped data) [cfg])))))"

text \<open>\<^verbatim>\<open>encodeUrl(url)\<close> of the injected script; \<^verbatim>\<open>btoa\<close> is the same base64 encoding.\<close>

definition encodeUrl :: "platform \<Rightarrow> string \<Rightarrow> string \<Rightarrow> string \<Rightarrow> string" where
  "encodeUrl P PROXY_ORIGIN BASE_URL u =
     (if u = [] \<or> startsWith u ''data:'' \<or> startsWith u ''javascript:'' \<or> startsWith u ''#'' then u
      else
        (case (if startsWith u ''http://'' \<or> startsWith u ''https://'' then Some u
               else if startsWith u ''//'' then map_option (\<lambda>b. protocol b @ u) (new_URL P BASE_URL None)
               else if startsWith u ''/'' then map_option (\<lambda>b. origin b @ u) (new_URL P BASE_URL None)
               else map_option href (new_URL P u (Some BASE_URL))) of
           None \<Rightarrow> u
         | Some a \<Rightarrow> PROXY_ORIGIN @ ''/api/encode/'' @ toString_base64 a))"

section \<open>\<^verbatim>\<open>/api/encode-helper.js\<close>\<close>

definition helper_cors :: "string \<rightharpoonup> string" where
  "helper_cors = cors ''GET, POST, OPTIONS'' ''Content-Type''"

definition encode_helper_handler :: "request \<Rightarrow> outcome" where
  "encode_helper_handler req =
     (if req_method req = ''OPTIONS'' then res_end helper_cors 200
      else
        (let act = map_of (req_query req) ''action''; dat = map_of (req_query req) ''data'' in
         if act = Some ''encode'' then
           (if \<not> truthy dat then res_json helper_cors 400 [(''error'', JStr ''Missing data parameter'')] []
            else (case decodeURIComponent (str dat) of
                    None \<Rightarrow>
                      res_json helper_cors 500
                        [(''error'', JStr ''Processing error''), (''message'', JStr ''URI malformed'')] []
                  | Some original \<Rightarrow>
                      (let encoded = toString_base64 original;
                           proxyUrl = str (js_or (req_headers req ''origin'') (Some ''http://localhost:3000''))
                                      @ ''/api/encode/'' @ encoded
                       in res_json helper_cors 200
                            [(''original'', JStr original), (''encoded'', JStr encoded),
                             (''proxyUrl'', JStr proxyUrl)] [])))
         else if act = Some ''decode'' then
           (if \<not> truthy dat then res_json helper_cors 400 [(''error'', JStr ''Missing data parameter'')] []
            else res_json helper_cors 200
                   [(''encoded'', JStr (str dat)), (''decoded'', JStr (from_base64 (str dat)))] [])
         else
           res_json helper_cors 400
             [(''error'', JStr ''Invalid action''),
              (''message'', JStr ''Use action=encode or action=decode'')] []))"

section \<open>\<^verbatim>\<open>/api/debug.js\<close> and \<^verbatim>\<open>/api/status.js\<close>\<close>

text \<open>
  Both answer with a JSON document and call nothing. Of the document the members computed
  from the request are written out; the timestamp, the copy of all request headers and the
  members that are constant text (the instructions of \<^verbatim>\<open>debug\<close>; the names, states and
  descriptions of the proxy methods and the list of features of \<^verbatim>\<open>status\<close>) are left out.
\<close>

definition json_opt :: "string option \<Rightarrow> json" where
  "json_opt x = (case x of None \<Rightarrow> JObj [] | Some s \<Rightarrow> JStr s)"

definition debug_handler :: "request \<Rightarrow> outcome" where
  "debug_handler req =
     (if req_method req = ''OPTIONS'' then res_end helper_cors 200
      else
        res_json helper_cors 200
          [(''message'', JStr ''Proxy Debug Information''),
           (''debug'', JObj
              [(''method'', JStr (req_method req)), (''url'', JStr (req_url req)),
               (''query'', json_query (req_query req)), (''body'', json_opt (req_body req)),
               (''host'', json_opt (req_headers req ''host'')),
               (''userAgent'', json_opt (req_headers req ''user-agent'')),
               (''referer'', json_opt (req_headers req ''referer'')),
               (''origin'', json_opt (req_headers req ''origin'')),
               (''proxyOriginGuess'', json_opt
                  (js_or (req_headers req ''origin'')
                    (js_or (map_option (before_first ''/api/'') (req_headers req ''referer''))
                      (Some (''https://'' @ (case req_headers req ''host'' of None \<Rightarrow> ''undefined'' | Some h \<Rightarrow> h))))))])] [])"

definition status_cors :: "string \<rightharpoonup> string" where
  "status_cors = cors ''GET, OPTIONS'' ''Content-Type''"

definition status_handler :: "request \<Rightarrow> outcome" where
  "status_handler req =
     (if req_method req = ''OPTIONS'' then res_end status_cors 200
      else
        (let baseUrl = str (js_or (req_headers req ''x-forwarded-proto'') (Some ''http'')) @ ''://''
                       @ (case req_headers req ''host'' of None \<Rightarrow> ''undefined'' | Some h \<Rightarrow> h)
         in res_json status_cors 200
              [(''status'', JStr ''operational''),
               (''proxy_methods'', JObj
                  [(''encoded'', JObj
                      [(''endpoint'', JStr ''/api/encode/[encoded]''),
                       (''example'', JStr (baseUrl @ ''/api/encode/aHR0cHM6Ly93d3cuZ29vZ2xlLmNvbQ==''))]),
                   (''query'', JObj
                      [(''endpoint'', JStr ''/api/proxy''),
                       (''example'', JStr (baseUrl @ ''/api/proxy?url=https%3A//www.google.com''))]),
                   (''path'', JObj
                      [(''endpoint'', JStr ''/api/proxy-path/[...path]''),
                       (''example'',
                        JStr (baseUrl @ ''/api/proxy-path/aHR0cHM6Ly93d3cuZ29vZ2xlLmNvbQ==/search''))])]),
               (''interfaces'', JObj
                  [(''main'', JStr (baseUrl @ ''/'')),
                   (''encoder'', JStr (baseUrl @ ''/encoder.html'')),
                   (''tester'', JStr (baseUrl @ ''/test.html'')),
                   (''documentation'', JStr (baseUrl @ ''/IMPLEMENTATION.md''))]),
               (''utilities'', JObj
                  [(''encode_helper'', JStr (baseUrl @ ''/api/encode-helper?action=encode&data=URL'')),
                   (''debug'', JStr (baseUrl @ ''/api/debug'')),
                   (''status'', JStr (baseUrl @ ''/api/status''))]),
               (''version'', JStr ''2.0.0''), (''last_updated'', JStr ''2025-08-04'')] []))"

section \<open>\<^verbatim>\<open>/api/proxy-path/[...path].js\<close>\<close>

definition rewriteUrlForPath :: "platform \<Rightarrow> string \<Rightarrow> string \<Rightarrow> string \<Rightarrow> string" where
  "rewriteUrlForPath P u orig proxyBase =
     (if u = [] \<or> startsWith u ''data:'' \<or> startsWith u ''javascript:'' \<or> startsWith u ''#'' then u
      else
        (case (if startsWith u ''http://'' \<or> startsWith u ''https://'' then Some u
               else if startsWith u ''//'' then map_option (\<lambda>b. protocol b @ u) (new_URL P orig None)
               else if startsWith u ''/'' then Some (orig @ u)
               else map_option href (new_URL P u (Some orig))) of
           None \<Rightarrow> u
         | Some a \<Rightarrow>
             (case new_URL P a None of
                None \<Rightarrow> u
              | Some urlObj \<Rightarrow>
                  if origin urlObj = orig then proxyBase @ pathname urlObj @ search urlObj @ hash urlObj
                  else ''/api/proxy?url='' @ encodeURIComponent a)))"

definition rewriteHtmlForProxyPath :: "platform \<Rightarrow> string \<Rightarrow> string \<Rightarrow> string" where
  "rewriteHtmlForProxyPath P html orig =
     (let proxyBase = ''/api/proxy-path/'' @ encodeURIComponent orig;
          h1 = replace_re P (AttrAny Href)
                 (\<lambda>m gs. ''href='' @ quoted (rewriteUrlForPath P (str (grp gs 0)) orig proxyBase)) html;
          h2 = replace_re P (AttrAny Src)
                 (\<lambda>m gs. ''src='' @ quoted (rewriteUrlForPath P (str (grp gs 0)) orig proxyBase)) h1
      in replace_re P (AttrAny Action)
           (\<lambda>m gs. ''action='' @ quoted (rewriteUrlForPath P (str (grp gs 0)) orig proxyBase)) h2)"

definition proxy_path_queryString :: "string \<Rightarrow> string" where
  "proxy_path_queryString u =
     (if includes_str u ''?''
      then ''?'' @ squeeze_amp (strip_amp (strip_param ''path='' 0 False
                     (takeWhile (\<lambda>c. c \<noteq> CHR ''?'') (url_query_string u))))
      else [])"

definition proxy_path_handler :: "platform \<Rightarrow> request \<Rightarrow> outcome" where
  "proxy_path_handler P req =
     (if req_method req = ''OPTIONS'' then res_end proxy_cors 200
      else
        (let pathSegments = (case req_catchall req of None \<Rightarrow> [] | Some xs \<Rightarrow> xs) in
         if pathSegments = [] then
           res_json proxy_cors 400
             [(''error'', JStr ''Missing path segments''),
              (''message'', JStr ''Please provide a path with encoded origin'')] []
         else
           (case decodeURIComponent (pathSegments ! 0) of
              None \<Rightarrow>
                res_json proxy_cors 500
                  [(''error'', JStr ''Proxy request failed''), (''message'', JStr ''URI malformed'')] []
            | Some orig \<Rightarrow>
                (let targetUrl = orig @ ''/'' @ join_str ''/'' (drop 1 pathSegments)
                                 @ proxy_path_queryString (req_url req) in
                 case new_URL P targetUrl None of
                   None \<Rightarrow>
                     res_json proxy_cors 500
                       [(''error'', JStr ''Proxy request failed''), (''message'', JStr ''Invalid URL'')] []
                 | Some targetUrlObj \<Rightarrow>
                     (let cfg = forward_config req targetUrl (host targetUrlObj) in
                      case axios P cfg of
                        Rejected err \<Rightarrow>
                          res_json proxy_cors 500
                            [(''error'', JStr ''Proxy request failed''),
                             (''message'', JStr (axios_message err))] [cfg]
                      | Resolved st statusText hs data \<Rightarrow>
                          (let responseHeaders =
                                 delete_headers [''content-encoding'', ''content-length'', ''transfer-encoding''] hs;
                               contentType = str (js_or (responseHeaders ''content-type'') (Some []))
                           in if includes_str contentType ''text/html'' then
                                res_write proxy_cors st
                                  (responseHeaders(''content-type'' \<mapsto> ''text/html; charset=utf-8''))
                                  (Buffered (rewriteHtmlForProxyPath P data orig)) [cfg]
                              else res_write proxy_cors st responseHeaders (Piped data) [cfg]))))))"

section \<open>The entry points\<close>

datatype entry_point =
  ApiProxy | ApiBrowse | ApiBrowseSegments | ApiPP | ApiEncode | ApiProxyPath
  | ApiEncodeHelper | ApiDebug | ApiStatus

definition handle :: "platform \<Rightarrow> entry_point \<Rightarrow> request \<Rightarrow> outcome" where
  "handle P ep req =
     (case ep of
        ApiProxy \<Rightarrow> proxy_handler P req
      | ApiBrowse \<Rightarrow> browse_handler P req
      | ApiBrowseSegments \<Rightarrow> segments_handler P req
      | ApiPP \<Rightarrow> pp_handler P req
      | ApiEncode \<Rightarrow> encoded_handler P req
      | ApiProxyPath \<Rightarrow> proxy_path_handler P req
      | ApiEncodeHelper \<Rightarrow> encode_helper_handler req
      | ApiDebug \<Rightarrow> debug_handler req
      | ApiStatus \<Rightarrow> status_handler req)"

text \<open>The entry points that fetch a target.\<close>

definition proxy_entry_points :: "entry_point list" where
  "proxy_entry_points = [ApiProxy, ApiBrowse, ApiBrowseSegments, ApiPP, ApiEncode, ApiProxyPath]"

section \<open>The Node runtime\<close>

text \<open>
  \<^verbatim>\<open>axios\<close> on Node sends the request through \<^verbatim>\<open>follow-redirects\<close> whenever
  \<^verbatim>\<open>maxRedirects\<close> is not zero: a response with a 3xx status and a \<^verbatim>\<open>location\<close> header is
  not handed to the caller, the request is sent again to the resolved location, and the
  redirect after the last allowed one is an error. \<open>net\<close> is the network: what each single
  request is answered with.
\<close>

datatype net_result = Reply nat string "string \<rightharpoonup> string" string | NetError string string

definition redirected :: "config \<Rightarrow> nat \<Rightarrow> string \<Rightarrow> config" where
  "redirected c st loc =
     (let to_get = (((st = 301 \<or> st = 302) \<and> cfg_method c = ''POST'')
                    \<or> (st = 303 \<and> cfg_method c \<noteq> ''GET'' \<and> cfg_method c \<noteq> ''HEAD''))
      in c\<lparr>cfg_url := loc,
           cfg_method := (if to_get then ''GET'' else cfg_method c),
           cfg_data := (if to_get then None else cfg_data c),
           cfg_headers := (\<lambda>k. if k = ''host'' \<or> (to_get \<and> startsWith k ''content-'') then None
                                else cfg_headers c k)\<rparr>)"

fun follow_redirects :: "(config \<Rightarrow> net_result) \<Rightarrow> nat \<Rightarrow> config \<Rightarrow> axios_result" where
  "follow_redirects net 0 c =
     (case net c of
        NetError e msg \<Rightarrow> Rejected (ErrCode e msg)
      | Reply st phrase hs b \<Rightarrow>
          if 300 \<le> st \<and> st < 400 \<and> truthy (hs ''location'') \<and> maxRedirects c \<noteq> 0
          then Rejected (ErrCode ''ERR_FR_TOO_MANY_REDIRECTS'' ''Maximum number of redirects exceeded'')
          else Resolved st phrase hs b)"
| "follow_redirects net (Suc n) c =
     (case net c of
        NetError e msg \<Rightarrow> Rejected (ErrCode e msg)
      | Reply st phrase hs b \<Rightarrow>
          if 300 \<le> st \<and> st < 400 \<and> truthy (hs ''location'') then
            (case whatwg_URL (str (hs ''location'')) (Some (cfg_url c)) of
               None \<Rightarrow> Rejected (ErrCode ''ERR_FR_REDIRECTION_FAILURE'' ''Redirected request failed: Invalid URL'')
             | Some u \<Rightarrow> follow_redirects net n (redirected c st (href u)))
          else Resolved st phrase hs b)"

definition node_axios :: "(config \<Rightarrow> net_result) \<Rightarrow> config \<Rightarrow> axios_result" where
  "node_axios net c =
     (case whatwg_URL (cfg_url c) None of
        None \<Rightarrow> Rejected (ErrCode ''ERR_INVALID_URL'' ''Invalid URL'')
      | Some u \<Rightarrow>
          if protocol u \<noteq> ''http:'' \<and> protocol u \<noteq> ''https:'' then Rejected (ErrCode ''ERR_BAD_REQUEST'' (''Unsupported protocol '' @ protocol u))
          else (case follow_redirects net (maxRedirects c) c of
                  Rejected e \<Rightarrow> Rejected e
                | Resolved st phrase hs b \<Rightarrow>
                    if accept_below_500_only c \<and> st \<ge> 500 then Rejected (BadStatus st phrase)
                    else Resolved st phrase hs b))"

definition node :: "(regex \<Rightarrow> string \<Rightarrow> piece list) \<Rightarrow> (config \<Rightarrow> net_result) \<Rightarrow> string option \<Rightarrow> platform" where
  "node re net env = \<lparr>new_URL = whatwg_URL, regex_pieces = re, axios = node_axios net, VERCEL_URL = env\<rparr>"

section \<open>Example inputs\<close>

text \<open>
  A regular-expression engine that finds no match, a network on which every name fails to
  resolve, and a network on which every request is answered \<^verbatim>\<open>200 text/plain\<close>.
\<close>

definition no_matches :: "regex \<Rightarrow> string \<Rightarrow> piece list" where
  "no_matches re s = [Text s]"

definition offline :: "config \<Rightarrow> net_result" where
  "offline c = NetError ''ENOTFOUND'' ''getaddrinfo ENOTFOUND''"

definition plain_ok :: "config \<Rightarrow> net_result" where
  "plain_ok c = Reply 200 ''OK'' [''content-type'' \<mapsto> ''text/plain''] ''ok''"

definition get_request :: "string \<Rightarrow> (string \<times> string) list \<Rightarrow> request" where
  "get_request u q =
     \<lparr>req_method = ''GET'', req_url = u, req_query = q, req_catchall = None,
      req_headers = Map.empty, req_body = None\<rparr>"

definition options_request :: request where
  "options_request =
     \<lparr>req_method = ''OPTIONS'', req_url = ''/api/browse?p=https/example.com'',
      req_query = [(''p'', ''https/example.com'')], req_catchall = None,
      req_headers = Map.empty, req_body = None\<rparr>"

text \<open>
  A target that answers \<^verbatim>\<open>302\<close> with \<^verbatim>\<open>Location: /login\<close>, and whose login page answers
  \<^verbatim>\<open>200\<close>.
\<close>

definition login_redirect :: "config \<Rightarrow> net_result" where
  "login_redirect c =
     (if cfg_url c = ''https://example.com/'' then Reply 302 ''Found'' [''location'' \<mapsto> ''/login''] []
      else if cfg_url c = ''https://example.com/login''
      then Reply 200 ''OK'' [''content-type'' \<mapsto> ''text/plain''] ''sign in''
      else NetError ''ENOTFOUND'' ''getaddrinfo ENOTFOUND'')"

text \<open>
  A page at \<^verbatim>\<open>https://example.com/a/b\<close> whose text is \<^verbatim>\<open><a href="c/d">x</a>\<close>, and the one
  match the expression \<^verbatim>\<open>/href\s*=\s*["']([^"']+)["']/gi\<close> has in it.
\<close>

definition link_page :: string where
  "link_page = ''<a href='' @ quoted ''c/d'' @ ''>x</a>''"

definition link_page_net :: "config \<Rightarrow> net_result" where
  "link_page_net c = Reply 200 ''OK'' [''content-type'' \<mapsto> ''text/html''] link_page"

definition link_page_regex :: "regex \<Rightarrow> string \<Rightarrow> piece list" where
  "link_page_regex re s =
     (if re = AttrAnyWs Href \<and> s = link_page
      then [Text ''<a '', Match (''href='' @ quoted ''c/d'') [Some ''c/d''], Text ''>x</a>'']
      else [Text s])"

definition link_page_request :: request where
  "link_page_request =
     \<lparr>req_method = ''GET'', req_url = ''/api/proxy?url=https%3A%2F%2Fexample.com%2Fa%2Fb'',
      req_query = [(''url'', ''https://example.com/a/b'')], req_catchall = None,
      req_headers = [''host'' \<mapsto> ''proxy.test''], req_body = None\<rparr>"



text \<open>The request for \<^verbatim>\<open>/api/pp?__cpo=aHR0cHM6Ly9leGFtcGxlLmNvbS8=&ko=s\<close>.\<close>

definition pp_example_request :: request where
  "pp_example_request =
     get_request ''/api/pp?__cpo=aHR0cHM6Ly9leGFtcGxlLmNvbS8=&ko=s''
       [(''__cpo'', ''aHR0cHM6Ly9leGFtcGxlLmNvbS8=''), (''ko'', ''s'')]"




section \<open>Proxy-addressable forms\<close>











section \<open>What the handlers send\<close>

text \<open>
  The \<^verbatim>\<open>axios\<close> calls of each handler, read off its control flow: at most one call, made
  only after the target has been decoded (and, in \<^verbatim>\<open>/api/proxy\<close>, passed the guard).
\<close>

lemma requests_res [simp]:
  "requests (res_json hs st obj reqs) = reqs"
  "requests (res_end hs st) = []"
  "requests (res_redirect hs st loc reqs) = reqs"
  "requests (res_write hs st w b reqs) = reqs"
  by (simp_all add: res_json_def res_end_def res_redirect_def res_write_def)

lemma requests_errors [simp]:
  "requests (proxy_catch t e reqs) = reqs"
  "requests (browse_error msg p reqs) = reqs"
  "requests (plain_error msg reqs) = reqs"
  "requests (pp_error msg enc reqs) = reqs"
  by (simp_all add: proxy_catch_def browse_error_def plain_error_def pp_error_def
        split: axios_error.split)







lemma requests_local [simp]:
  "requests (encode_helper_handler req) = []"
  "requests (debug_handler req) = []"
  "requests (status_handler req) = []"
  by (simp_all add: encode_helper_handler_def debug_handler_def status_handler_def Let_def
        split: option.split)























section \<open>The encodings invert\<close>

text \<open>
  \<^verbatim>\<open>encodeURIComponent\<close> is undone by \<^verbatim>\<open>decodeURIComponent\<close> and by the query-string parser
  that fills \<^verbatim>\<open>req.query\<close>.
\<close>

lemma code_bound: "code c < 256"
  by (simp add: code_def)

lemma char_of_code: "char_of (code c) = c"
  by (simp add: code_def)

lemma hexval_hexdigit: "n < 16 \<Longrightarrow> hexval (hexdigit n) = Some n"
  by (auto simp: hexval_def hexdigit_def code_def Let_def)

lemma nibble_bounds: "code c div 16 < 16" "code c mod 16 < 16"
  using code_bound [of c] by simp_all

lemma reserved_not_kept: "\<not> uri_unreserved CHR ''%''" "\<not> uri_unreserved CHR ''+''"
  by (simp_all add: uri_unreserved_def is_alnum_def code_def)

lemma decodeURIComponent_pct:
  "decodeURIComponent (pct c @ r) = map_option ((#) c) (decodeURIComponent r)"
  by (simp add: pct_def hexval_hexdigit nibble_bounds char_of_code)

lemma qs_unescape_pct: "qs_unescape (pct c @ r) = c # qs_unescape r"
  by (simp add: pct_def hexval_hexdigit nibble_bounds char_of_code)

lemma decodeURIComponent_encodeURIComponent: "decodeURIComponent (encodeURIComponent s) = Some s"
proof (induction s)
  case Nil
  show ?case by (simp add: encodeURIComponent_def)
next
  case (Cons c s)
  show ?case
  proof (cases "uri_unreserved c")
    case True
    then have "c \<noteq> CHR ''%''" using reserved_not_kept by auto
    with True Cons show ?thesis by (simp add: encodeURIComponent_def)
  next
    case False
    then have "encodeURIComponent (c # s) = pct c @ encodeURIComponent s"
      by (simp add: encodeURIComponent_def)
    with Cons show ?thesis by (simp only: decodeURIComponent_pct) simp
  qed
qed

lemma qs_unescape_encodeURIComponent: "qs_unescape (encodeURIComponent s) = s"
proof (induction s)
  case Nil
  show ?case by (simp add: encodeURIComponent_def)
next
  case (Cons c s)
  show ?case
  proof (cases "uri_unreserved c")
    case True
    then have "c \<noteq> CHR ''%''" "c \<noteq> CHR ''+''" using reserved_not_kept by auto
    with True Cons show ?thesis by (simp add: encodeURIComponent_def)
  next
    case False
    then have "encodeURIComponent (c # s) = pct c @ encodeURIComponent s"
      by (simp add: encodeURIComponent_def)
    with Cons show ?thesis by (simp only: qs_unescape_pct)
  qed
qed

text \<open>
  Base64: three bytes become four sextets and back; the padding of a last group of one or
  two bytes is dropped by the decoder.
\<close>

lemma b64val_b64chr: "n < 64 \<Longrightarrow> b64val (b64chr n) = Some n"
  by (auto simp: b64val_def b64chr_def code_def Let_def)

lemma b64chr_not_pad:
  assumes "n < 64"
  shows "b64chr n \<noteq> CHR ''=''"
proof
  assume "b64chr n = CHR ''=''"
  then have "code (b64chr n) = 61" by (simp add: code_def)
  with assms show False
    by (auto simp: b64chr_def code_def split: if_splits)
qed

lemma sextet_hi: "y < k \<Longrightarrow> (x * k + y) div k = (x::nat)"
  by simp

lemma sextet_lo: "y < k \<Longrightarrow> (x * k + y) mod k = (y::nat)"
  by simp

lemma octet_1: "b < 256 \<Longrightarrow> (a div 4) * 4 + ((a mod 4) * 16 + b div 16) div 16 = (a::nat)"
proof -
  assume "b < 256"
  then have "b div 16 < 16" by simp
  then have "((a mod 4) * 16 + b div 16) div 16 = a mod 4" by (rule sextet_hi)
  then show ?thesis by simp
qed

lemma octet_2: "b < 256 \<Longrightarrow> c < 256 \<Longrightarrow>
  (((a mod 4) * 16 + b div 16) mod 16) * 16 + ((b mod 16) * 4 + c div 64) div 4 = (b::nat)"
proof -
  assume "b < 256" "c < 256"
  then have "b div 16 < 16" "c div 64 < 4" by simp_all
  then have "((a mod 4) * 16 + b div 16) mod 16 = b div 16"
    "((b mod 16) * 4 + c div 64) div 4 = b mod 16"
    by (simp_all only: sextet_hi sextet_lo)
  then show ?thesis by simp
qed

lemma octet_3: "c < 256 \<Longrightarrow> (((b mod 16) * 4 + c div 64) mod 4) * 64 + c mod 64 = (c::nat)"
proof -
  assume "c < 256"
  then have "c div 64 < 4" by simp
  then have "((b mod 16) * 4 + c div 64) mod 4 = c div 64" by (rule sextet_lo)
  then show ?thesis by simp
qed

lemma octet_2_last: "b < 256 \<Longrightarrow>
  (((a mod 4) * 16 + b div 16) mod 16) * 16 + ((b mod 16) * 4) div 4 = (b::nat)"
  using octet_2 [of b 0 a] by simp

lemma octet_1_last: "(a div 4) * 4 + ((a mod 4) * 16) div 16 = (a::nat)"
  by simp

lemma takeWhile_b64:
  "n < 64 \<Longrightarrow> takeWhile (\<lambda>c. c \<noteq> CHR ''='') (b64chr n # cs)
                = b64chr n # takeWhile (\<lambda>c. c \<noteq> CHR ''='') cs"
  by (simp add: b64chr_not_pad)

lemma takeWhile_pad: "takeWhile (\<lambda>c. c \<noteq> CHR ''='') (CHR ''='' # cs) = []"
  by simp

lemma map_filter_Nil: "List.map_filter f [] = []"
  by (simp add: List.map_filter_simps)

lemma map_filter_b64:
  "n < 64 \<Longrightarrow> List.map_filter b64val (b64chr n # cs) = n # List.map_filter b64val cs"
  by (simp add: List.map_filter_simps b64val_b64chr)

lemma b64_groups_round_trip:
  "\<forall>x \<in> set bs. x < 256 \<Longrightarrow>
     b64_bytes (List.map_filter b64val (takeWhile (\<lambda>c. c \<noteq> CHR ''='') (b64_groups bs))) = bs"
proof (induction bs rule: b64_groups.induct)
  case (1 a b c r)
  then have bounds: "a < 256" "b < 256" "c < 256" and rest: "\<forall>x \<in> set r. x < 256"
    by simp_all
  have s: "a div 4 < 64" "(a mod 4) * 16 + b div 16 < 64" "(b mod 16) * 4 + c div 64 < 64"
    "c mod 64 < 64"
    using bounds by simp_all
  have "b64_bytes (List.map_filter b64val
          (takeWhile (\<lambda>c. c \<noteq> CHR ''='') (b64_groups (a # b # c # r))))
        = b64_bytes (a div 4 # ((a mod 4) * 16 + b div 16) # ((b mod 16) * 4 + c div 64)
            # (c mod 64)
            # List.map_filter b64val (takeWhile (\<lambda>c. c \<noteq> CHR ''='') (b64_groups r)))"
    by (simp only: b64_groups.simps append_Cons append_Nil
          takeWhile_b64 [OF s(1)] takeWhile_b64 [OF s(2)]
          takeWhile_b64 [OF s(3)] takeWhile_b64 [OF s(4)]
          map_filter_b64 [OF s(1)] map_filter_b64 [OF s(2)]
          map_filter_b64 [OF s(3)] map_filter_b64 [OF s(4)])
  also have "\<dots> = [a, b, c]
        @ b64_bytes (List.map_filter b64val (takeWhile (\<lambda>c. c \<noteq> CHR ''='') (b64_groups r)))"
    by (simp only: b64_bytes.simps octet_1 [OF bounds(2)] octet_2 [OF bounds(2,3)]
          octet_3 [OF bounds(3)])
  also have "\<dots> = a # b # c # r"
    by (simp only: "1.IH" [OF rest] append_Cons append_Nil)
  finally show ?case .
next
  case (2 a b)
  then have bounds: "a < 256" "b < 256" by simp_all
  have s: "a div 4 < 64" "(a mod 4) * 16 + b div 16 < 64" "(b mod 16) * 4 < 64"
    using bounds by simp_all
  have "b64_bytes (List.map_filter b64val (takeWhile (\<lambda>c. c \<noteq> CHR ''='') (b64_groups [a, b])))
        = b64_bytes [a div 4, (a mod 4) * 16 + b div 16, (b mod 16) * 4]"
    by (simp only: b64_groups.simps takeWhile_b64 [OF s(1)] takeWhile_b64 [OF s(2)]
          takeWhile_b64 [OF s(3)] takeWhile_pad map_filter_Nil
          map_filter_b64 [OF s(1)] map_filter_b64 [OF s(2)] map_filter_b64 [OF s(3)])
  also have "\<dots> = [a, b]"
    by (simp only: b64_bytes.simps octet_1 [OF bounds(2)] octet_2_last [OF bounds(2)])
  finally show ?case .
next
  case (3 a)
  have s: "a div 4 < 64" "(a mod 4) * 16 < 64"
    using 3 by simp_all
  have "b64_bytes (List.map_filter b64val (takeWhile (\<lambda>c. c \<noteq> CHR ''='') (b64_groups [a])))
        = b64_bytes [a div 4, (a mod 4) * 16]"
    by (simp only: b64_groups.simps takeWhile_b64 [OF s(1)] takeWhile_b64 [OF s(2)]
          takeWhile_pad map_filter_Nil
          map_filter_b64 [OF s(1)] map_filter_b64 [OF s(2)])
  also have "\<dots> = [a]"
    by (simp only: b64_bytes.simps octet_1_last)
  finally show ?case .
next
  case 4
  show ?case by (simp add: map_filter_Nil)
qed

lemma from_base64_toString_base64: "from_base64 (toString_base64 s) = s"
proof -
  have "\<forall>x \<in> set (map code s). x < 256"
    by (simp add: code_bound)
  then have "b64_bytes (List.map_filter b64val
               (takeWhile (\<lambda>c. c \<noteq> CHR ''='') (b64_groups (map code s)))) = map code s"
    by (rule b64_groups_round_trip)
  then show ?thesis
    by (simp add: from_base64_def toString_base64_def code_def comp_def)
qed

section \<open>The client-side rewrite is idempotent\<close>

text \<open>
  \<^verbatim>\<open>rewriteProxyUrl\<close> of the injected script returns a URL that contains \<^verbatim>\<open>/api/proxy\<close>
  as it is, and whatever it builds contains \<^verbatim>\<open>/api/proxy\<close>.
\<close>

lemma includes_prefix: "includes_str (sub @ c) sub"
proof (cases "sub @ c")
  case Nil
  then show ?thesis by simp
next
  case (Cons x xs)
  have "startsWith (sub @ c) sub" by (simp add: startsWith_def)
  then show ?thesis unfolding Cons by simp
qed

lemma includes_infix: "includes_str (a @ sub @ c) sub"
  by (induction a) (simp_all add: includes_prefix)

lemma rewriteProxyUrl_shape:
  "rewriteProxyUrl P po b loc u = u
   \<or> (\<exists>rest. rewriteProxyUrl P po b loc u = po @ PROXY_ENDPOINT @ rest)"
  by (simp add: rewriteProxyUrl_def split: option.split)

lemma rewriteProxyUrl_proxied:
  "includes_str u PROXY_ENDPOINT \<Longrightarrow> rewriteProxyUrl P po b loc u = u"
  by (simp add: rewriteProxyUrl_def)

lemma rewriteProxyUrl_idempotent:
  "rewriteProxyUrl P po b loc (rewriteProxyUrl P po b loc u) = rewriteProxyUrl P po b loc u"
proof -
  from rewriteProxyUrl_shape [of P po b loc u]
  consider "rewriteProxyUrl P po b loc u = u"
    | rest where "rewriteProxyUrl P po b loc u = po @ PROXY_ENDPOINT @ rest"
    by blast
  then show ?thesis
  proof cases
    case 1
    then show ?thesis by simp
  next
    case 2
    have "includes_str (po @ PROXY_ENDPOINT @ rest) PROXY_ENDPOINT"
      by (rule includes_infix)
    then show ?thesis
      unfolding 2 by (rule rewriteProxyUrl_proxied)
  qed
qed

lemma rewriteProxyUrl_relative:
  "rewriteProxyUrl (node no_matches offline None) ''http://localhost:3000'' ''https://example.com''
     ''http://localhost:3000/api/proxy?url=https%3A%2F%2Fexample.com%2Fa%2Fb''
     ''c''
   = ''http://localhost:3000/api/proxy?url=https%3A%2F%2Fexample.com%2Fa%2Fc''"
  by code_simp
section \<open>Preflight requests\<close>

text \<open>
  C10. On every entry point a request with method OPTIONS is answered with status 200 and an
  empty body, the three CORS headers are set, and no request is sent to any target, whatever
  the query parameters are.
\<close>

theorem options_answered_locally:
  "req_method req = ''OPTIONS'' \<Longrightarrow>
     status (response (handle P ep req)) = 200
   \<and> res_body (response (handle P ep req)) = NoBody
   \<and> requests (handle P ep req) = []
   \<and> res_headers (response (handle P ep req)) ''access-control-allow-origin'' = Some ''*''
   \<and> res_headers (response (handle P ep req)) ''access-control-allow-methods'' \<noteq> None
   \<and> res_headers (response (handle P ep req)) ''access-control-allow-headers'' \<noteq> None"
  by (cases ep)
     (simp_all add: handle_def proxy_handler_def browse_handler_def segments_handler_def
        pp_handler_def encoded_handler_def proxy_path_handler_def encode_helper_handler_def
        debug_handler_def status_handler_def res_end_def cors_def proxy_cors_def std_cors_def
        helper_cors_def status_cors_def)

theorem options_answered_locally_witness:
  "req_method options_request = ''OPTIONS''
   \<and> status (response (handle (node no_matches plain_ok None) ApiBrowse options_request)) = 200
   \<and> res_body (response (handle (node no_matches plain_ok None) ApiBrowse options_request)) = NoBody
   \<and> requests (handle (node no_matches plain_ok None) ApiBrowse options_request) = []"
  using options_answered_locally [of options_request "node no_matches plain_ok None" ApiBrowse]
  by (simp add: options_request_def)

section \<open>The access guard\<close>

text \<open>
  The guard of \<^verbatim>\<open>/api/proxy\<close>: a host name that contains one of the forbidden fragments is
  answered 403 and nothing is sent.
\<close>

lemma proxy_guard:
  assumes "req_method req \<noteq> ''OPTIONS''"
    and "map_of (req_query req) ''url'' = Some t" and "t \<noteq> []"
    and "new_URL P (proxy_normalizedUrl t) None = Some u"
    and "list_ex (\<lambda>h. includes_str (toLowerCase (hostname u)) h) forbiddenHosts"
  shows "status (response (proxy_handler P req)) = 403 \<and> requests (proxy_handler P req) = []"
  using assms by (simp add: proxy_handler_def truthy_def str_def res_json_def)

text \<open>
  On Node \<^verbatim>\<open>/api/proxy\<close> refuses the loopback address, and the handlers addressed by a
  base64 token send the same target on.
\<close>

lemma proxy_refuses_loopback:
  "status (response (handle (node no_matches plain_ok None) ApiProxy
      (get_request ''/api/proxy?url=http%3A%2F%2F127.0.0.1%2Fadmin''
         [(''url'', ''http://127.0.0.1/admin'')])))
   = 403
   \<and> requests (handle (node no_matches plain_ok None) ApiProxy
      (get_request ''/api/proxy?url=http%3A%2F%2F127.0.0.1%2Fadmin''
         [(''url'', ''http://127.0.0.1/admin'')]))
   = []"
  by code_simp

lemma tokens_forward_to_loopback:
  "map cfg_url (requests (handle (node no_matches plain_ok None) ApiPP
      (get_request ''/api/pp?__cpo=aHR0cDovLzEyNy4wLjAuMS9hZG1pbg==&ko=s''
         [(''__cpo'', ''aHR0cDovLzEyNy4wLjAuMS9hZG1pbg==''), (''ko'', ''s'')])))
   = [''http://127.0.0.1/admin'']"
  "map cfg_url (requests (handle (node no_matches plain_ok None) ApiEncode
      (get_request ''/api/encode/aHR0cDovLzEyNy4wLjAuMS9hZG1pbg==''
         [(''encoded'', ''aHR0cDovLzEyNy4wLjAuMS9hZG1pbg=='')])))
   = [''http://127.0.0.1/admin'']"
  by code_simp+

text \<open>
  C2. The claim asks for the guard on every proxy entry point. \<^verbatim>\<open>/api/browse\<close> has none:
  the request \<^verbatim>\<open>GET /api/browse?p=http/127.0.0.1/admin\<close> is forwarded to the loopback
  address, on every platform.
\<close>

theorem browse_forwards_to_loopback:
  "map cfg_url (requests (handle P ApiBrowse
      (get_request ''/api/browse?p=http/127.0.0.1/admin'' [(''p'', ''http/127.0.0.1/admin'')])))
   = [''http://127.0.0.1/admin'']"
  by (simp add: handle_def browse_handler_def get_request_def truthy_def str_def browse_targetUrl_def
        Let_def URLSearchParams_toString_def forward_config_def browse_error_def res_json_def
        res_write_def
        split: axios_result.splits option.splits)

section \<open>Idempotence\<close>

text \<open>
  C9. The server-side \<^verbatim>\<open>rewriteUrl\<close> wraps a URL that is already in the proxy's form a
  second time: applied to its own output for \<^verbatim>\<open>https://example.com/\<close> it returns a
  different string, the proxy form of the proxy form.
\<close>

theorem rewriteUrl_wraps_twice:
  "rewriteUrl P (rewriteUrl P ''https://example.com/'' b ''http://localhost:3000'') b
     ''http://localhost:3000''
   = ''http://localhost:3000/api/proxy?url=http%3A%2F%2Flocalhost%3A3000%2Fapi%2Fproxy%3Furl%3Dhttps%253A%252F%252Fexample.com%252F''"
  by (simp add: rewriteUrl_def rewrite_skipped_def absoluteUrl_def startsWith_def
        encodeURIComponent_def uri_unreserved_def is_alnum_def code_def pct_def hexdigit_def
        char_of_def bit_simps)

section \<open>Round trip\<close>

text \<open>
  C1. The \<^verbatim>\<open>p=\<close> encoding does not round-trip a target with a query string of two
  parameters. Both encoders, \<^verbatim>\<open>convertToBrowseProxy\<close> of the injected script and the
  \<^verbatim>\<open>href\<close> rewrite of \<^verbatim>\<open>rewriteHtmlForBrowseProxy\<close>, turn
  \<^verbatim>\<open>https://example.com/search?q=1&r=2\<close> into
  \<^verbatim>\<open>/api/browse?p=https/example.com/search?q=1&r=2\<close>; the platform reads that request as
  \<^verbatim>\<open>p = https/example.com/search?q=1\<close> and \<^verbatim>\<open>r = 2\<close>, and the handler fetches
  \<^verbatim>\<open>https://example.com/search?q=1?r=2\<close>.
\<close>

theorem browse_encoding_mangles_query:
  "convertToBrowseProxy (node no_matches offline None) ''http://localhost:3000'' ''https''
     ''example.com'' ''https://example.com/search?q=1&r=2''
     = ''http://localhost:3000/api/browse?p=https/example.com/search?q=1&r=2''
   \<and> browse_abs_cb ''href'' ''http://localhost:3000''
       (''href='' @ quoted ''https://example.com/search?q=1&r=2'')
       [Some ''example.com'', Some ''/search?q=1&r=2'']
     = ''href='' @ quoted ''http://localhost:3000/api/browse?p=https/example.com/search?q=1&r=2''
   \<and> qs_parse (url_query_string ''http://localhost:3000/api/browse?p=https/example.com/search?q=1&r=2'')
     = [(''p'', ''https/example.com/search?q=1''), (''r'', ''2'')]
   \<and> map cfg_url (requests (handle (node no_matches offline None) ApiBrowse
        (get_request ''/api/browse?p=https/example.com/search?q=1&r=2''
           [(''p'', ''https/example.com/search?q=1''), (''r'', ''2'')])))
     = [''https://example.com/search?q=1?r=2'']"
  by code_simp

section \<open>Redirects\<close>

text \<open>
  What \<^verbatim>\<open>/api/pp\<close> does with a 3xx response that \<^verbatim>\<open>axios\<close> hands to it: it answers 302 with
  the proxy form of the resolved location.
\<close>

lemma pp_redirect_branch:
  assumes "req_method req \<noteq> ''OPTIONS''"
    and "map_of (req_query req) ''__cpo'' = Some e" and "e \<noteq> []"
    and "new_URL P (from_base64 e) None = Some t"
    and "axios P (pp_config req (from_base64 e) t) = Resolved st phrase hs d"
    and "300 \<le> st" and "st < 400" and "hs ''location'' = Some loc" and "loc \<noteq> []"
    and "new_URL P loc (Some (from_base64 e)) = Some r"
  shows "status (response (pp_handler P req)) = 302
         \<and> res_headers (response (pp_handler P req)) ''location''
             = Some (pp_form (env_proxyOrigin P) (toString_base64 (href r)))"
  using assms by (simp add: pp_handler_def truthy_def str_def res_redirect_def)

text \<open>
  On Node no such response reaches the handler: with \<^verbatim>\<open>maxRedirects\<close> other than zero
  \<^verbatim>\<open>axios\<close> follows every 3xx response that has a location.
\<close>

lemma follow_redirects_final:
  "maxRedirects c \<noteq> 0 \<Longrightarrow> follow_redirects net n c = Resolved st phrase hs b \<Longrightarrow>
     \<not> (300 \<le> st \<and> st < 400 \<and> truthy (hs ''location''))"
proof (induction n arbitrary: c)
  case 0
  then show ?case by (auto split: net_result.splits if_splits)
next
  case (Suc n)
  show ?case
  proof (cases "net c")
    case (NetError e msg)
    with Suc.prems show ?thesis by simp
  next
    case (Reply st' phrase' hs' b')
    show ?thesis
    proof (cases "300 \<le> st' \<and> st' < 400 \<and> truthy (hs' ''location'')")
      case False
      with Suc.prems Reply show ?thesis by (auto split: if_splits)
    next
      case True
      with Suc.prems Reply obtain u where
        u: "whatwg_URL (str (hs' ''location'')) (Some (cfg_url c)) = Some u"
        and r: "follow_redirects net n (redirected c st' (href u)) = Resolved st phrase hs b"
        by (auto split: option.splits)
      have "maxRedirects (redirected c st' (href u)) \<noteq> 0"
        using Suc.prems(1) by (simp add: redirected_def Let_def)
      from Suc.IH [OF this r] show ?thesis .
    qed
  qed
qed

lemma node_axios_follows:
  assumes m: "maxRedirects c \<noteq> 0" and r: "node_axios net c = Resolved st phrase hs b"
  shows "\<not> (300 \<le> st \<and> st < 400 \<and> truthy (hs ''location''))"
proof -
  from r have "follow_redirects net (maxRedirects c) c = Resolved st phrase hs b"
    by (auto simp: node_axios_def split: option.splits if_splits axios_result.splits)
  from follow_redirects_final [OF m this] show ?thesis .
qed

text \<open>
  C4. With every handler's \<^verbatim>\<open>maxRedirects: 5\<close> the redirect is followed, not relayed: for a
  target that answers \<^verbatim>\<open>302\<close> with \<^verbatim>\<open>Location: /login\<close>, \<^verbatim>\<open>/api/pp\<close> answers 200 with the
  login page and no location header.
\<close>

theorem pp_follows_redirect:
  "status (response (handle (node no_matches login_redirect None) ApiPP pp_example_request)) = 200
   \<and> res_body (response (handle (node no_matches login_redirect None) ApiPP pp_example_request))
       = Piped ''sign in''
   \<and> res_headers (response (handle (node no_matches login_redirect None) ApiPP pp_example_request))
       ''location'' = None
   \<and> map cfg_url (requests (handle (node no_matches login_redirect None) ApiPP pp_example_request))
       = [''https://example.com/'']
   \<and> map maxRedirects (requests (handle (node no_matches login_redirect None) ApiPP pp_example_request))
       = [5]"
  by code_simp

section \<open>Relative URLs\<close>

text \<open>
  The rewrite of \<^verbatim>\<open>/api/browse\<close> resolves a relative \<^verbatim>\<open>href\<close> against the whole URL of the
  page.
\<close>

lemma browse_resolves_against_page:
  "browse_rel_cb (node no_matches offline None) ''href'' ''http://localhost:3000''
     ''https://example.com/a/b'' (''href='' @ quoted ''c/d'') [Some ''c/d'']
   = ''href='' @ quoted ''http://localhost:3000/api/browse?p=https/example.com/a/c/d''"
  by code_simp

text \<open>
  C5. \<^verbatim>\<open>/api/proxy\<close> resolves against the origin only: for the page
  \<^verbatim>\<open>https://example.com/a/b\<close> the handler passes \<^verbatim>\<open>https://example.com\<close> as the base, and
  the link \<^verbatim>\<open>c/d\<close> of the page is rewritten to the proxy form of
  \<^verbatim>\<open>https://example.com/c/d\<close>.
\<close>

theorem proxy_resolves_against_origin:
  "res_body (response (handle (node link_page_regex link_page_net None) ApiProxy link_page_request))
   = Buffered (injectProxyScript
       (''<a href='' @ quoted ''https://proxy.test/api/proxy?url=https%3A%2F%2Fexample.com%2Fc%2Fd''
        @ ''>x</a>'')
       (generateProxyScript ''https://example.com'' ''https://proxy.test''))"
  by code_simp

section \<open>Decoding errors\<close>




section \<open>Forms without a target\<close>




section \<open>Forwarding the method and the body\<close>




section \<open>Graceful degradation\<close>




end
